theory Spec2Isabelle
  imports Complex_Main
begin

section \<open>Attribution of distribution changes (dowhy.gcm.distribution\_change)\<close>

text \<open>
  A shallow embedding of \<^verbatim>\<open>src/dowhy/gcm/distribution_change.py\<close>.

  Conventions of the embedding:
  \<^item> p-values and significance levels are idealised as \<^typ>\<open>real\<close>. The values of
    the difference function, on which the module computes, are floats with their
    special values (type \<open>pyfloat\<close> below); rounding and overflow of finite
    arithmetic are not modelled.
  \<^item> A sample array is the list of its rows (first axis). \<^verbatim>\<open>shape_into_2d\<close> only
    reshapes each row, so it is the identity on this view; \<^verbatim>\<open>np.vstack\<close> is \<open>@\<close>.
  \<^item> The global random source, and whatever else the pluggable collaborators keep,
    is an explicit state \<open>'w\<close> threaded through every call. A collaborator may
    raise: it returns \<open>Inl\<close> of the exception together with the state it left behind.
  \<^item> Python names with a leading underscore lose it, as an Isabelle name cannot start
    with one.
\<close>

subsection \<open>Exceptions and effects\<close>

datatype error =
    ValueError string
  | KeyError
  | IndexError
  | ZeroDivisionError
  | Raised string

type_synonym ('a, 'w) eff = "'w \<Rightarrow> (error + 'a) \<times> 'w"

definition unit_eff :: "'a \<Rightarrow> ('a, 'w) eff" where
  "unit_eff a = (\<lambda>w. (Inr a, w))"

definition raise :: "error \<Rightarrow> ('a, 'w) eff" where
  "raise e = (\<lambda>w. (Inl e, w))"

definition lift_result :: "error + 'a \<Rightarrow> ('a, 'w) eff" where
  "lift_result r = (\<lambda>w. (r, w))"

definition bind_eff :: "('a, 'w) eff \<Rightarrow> ('a \<Rightarrow> ('b, 'w) eff) \<Rightarrow> ('b, 'w) eff" where
  "bind_eff m f = (\<lambda>w. case m w of (Inl e, w') \<Rightarrow> (Inl e, w') | (Inr a, w') \<Rightarrow> f a w')"

subsection \<open>Floats\<close>

text \<open>
  A float is a finite number, an infinity or NaN. The operations are those of Python
  and numpy floats on the special values: NaN is contagious, \<open>inf - inf\<close> and
  \<open>inf / inf\<close> are NaN, and every comparison with NaN is false, so that \<open>x != 0\<close>
  holds for NaN. Dividing by a finite zero is not defined here (it is set to NaN): the
  module only divides by a number it has tested to be nonzero.
\<close>

datatype pyfloat = Finite real | PosInf | NegInf | NaN

fun fneg :: "pyfloat \<Rightarrow> pyfloat" where
  "fneg (Finite a) = Finite (- a)"
| "fneg PosInf = NegInf"
| "fneg NegInf = PosInf"
| "fneg NaN = NaN"

fun fadd :: "pyfloat \<Rightarrow> pyfloat \<Rightarrow> pyfloat" where
  "fadd NaN y = NaN"
| "fadd x NaN = NaN"
| "fadd (Finite a) (Finite b) = Finite (a + b)"
| "fadd PosInf NegInf = NaN"
| "fadd NegInf PosInf = NaN"
| "fadd PosInf y = PosInf"
| "fadd x PosInf = PosInf"
| "fadd NegInf y = NegInf"
| "fadd x NegInf = NegInf"

definition fsub :: "pyfloat \<Rightarrow> pyfloat \<Rightarrow> pyfloat" where
  "fsub x y = fadd x (fneg y)"

fun fdiv :: "pyfloat \<Rightarrow> pyfloat \<Rightarrow> pyfloat" where
  "fdiv NaN y = NaN"
| "fdiv x NaN = NaN"
| "fdiv (Finite a) (Finite b) = (if b = 0 then NaN else Finite (a / b))"
| "fdiv (Finite a) y = Finite 0"
| "fdiv PosInf (Finite b) = (if b = 0 then NaN else if b < 0 then NegInf else PosInf)"
| "fdiv NegInf (Finite b) = (if b = 0 then NaN else if b < 0 then PosInf else NegInf)"
| "fdiv x y = NaN"

fun fle :: "pyfloat \<Rightarrow> pyfloat \<Rightarrow> bool" where
  "fle NaN y = False"
| "fle x NaN = False"
| "fle (Finite a) (Finite b) = (a \<le> b)"
| "fle NegInf y = True"
| "fle x PosInf = True"
| "fle x y = False"

subsection \<open>Arrays\<close>

text \<open>\<^verbatim>\<open>a[indices]\<close> with an index array: the selected rows, in the order of the
  indices; an index past the end raises.\<close>

definition take_rows :: "'a list \<Rightarrow> nat list \<Rightarrow> error + 'a list" where
  "take_rows xs indices =
     (if list_all (\<lambda>i. i < length xs) indices then Inr (map (\<lambda>i. xs ! i) indices)
      else Inl IndexError)"

subsection \<open>Data frames and causal graphs\<close>

text \<open>
  A \<^verbatim>\<open>pandas.DataFrame\<close>: its column labels and its rows. Columns are only ever
  addressed by label, so their order is not kept. A row maps a label to its cell;
  \<open>None\<close> is a missing cell (NaN).
\<close>

record ('n, 'v) dataframe =
  columns :: "'n set"
  rows :: "('n \<rightharpoonup> 'v) list"

text \<open>\<^verbatim>\<open>df[node].to_numpy()\<close> and \<^verbatim>\<open>df[[p1, ..., pk]].to_numpy()\<close>; an unknown label
  raises \<^verbatim>\<open>KeyError\<close>.\<close>

definition column :: "('n, 'v) dataframe \<Rightarrow> 'n \<Rightarrow> error + 'v option list" where
  "column df node =
     (if node \<in> columns df then Inr (map (\<lambda>row. row node) (rows df)) else Inl KeyError)"

definition select_columns :: "('n, 'v) dataframe \<Rightarrow> 'n list \<Rightarrow> error + 'v option list list" where
  "select_columns df labels =
     (if set labels \<subseteq> columns df then Inr (map (\<lambda>row. map row labels) (rows df))
      else Inl KeyError)"

text \<open>\<^verbatim>\<open>pd.concat([a, b], ignore_index=True, sort=True)\<close>: the union of the columns,
  the rows of \<open>a\<close> followed by the rows of \<open>b\<close>. A row has cells for the columns of
  its own frame only, so in the result its cells of the other columns are missing.\<close>

definition pd_concat :: "('n, 'v) dataframe \<Rightarrow> ('n, 'v) dataframe \<Rightarrow> ('n, 'v) dataframe" where
  "pd_concat a b = \<lparr>columns = columns a \<union> columns b, rows = rows a @ rows b\<rparr>"

text \<open>
  A directed graph with the two node attributes the module reads and writes:
  \<^verbatim>\<open>CAUSAL_MECHANISM\<close> and \<^verbatim>\<open>PARENTS_DURING_FIT\<close>. \<open>nodes\<close> is the iteration order of
  \<^verbatim>\<open>graph.nodes\<close>. A mechanism is an opaque handle \<open>'m\<close>.
\<close>

record ('n, 'm) digraph =
  nodes :: "'n list"
  edges :: "('n \<times> 'n) list"
  causal_mechanism :: "'n \<rightharpoonup> 'm"
  parents_during_fit :: "'n \<rightharpoonup> 'n list"

definition predecessors :: "('n, 'm) digraph \<Rightarrow> 'n \<Rightarrow> 'n list" where
  "predecessors g node = map fst (filter (\<lambda>(u, v). v = node) (edges g))"

text \<open>Modelled from the spec: \<^verbatim>\<open>is_root_node\<close> and \<^verbatim>\<open>get_ordered_predecessors\<close> of
  \<^verbatim>\<open>dowhy.graph\<close> are not under src/. A root node is a node with no incoming edges; the
  parents of a node are taken in the graph's declared predecessor order.\<close>

definition is_root_node :: "('n, 'm) digraph \<Rightarrow> 'n \<Rightarrow> bool" where
  "is_root_node g node = (predecessors g node = [])"

definition get_ordered_predecessors :: "('n, 'm) digraph \<Rightarrow> 'n \<Rightarrow> 'n list" where
  "get_ordered_predecessors g node = predecessors g node"

subsection \<open>The mechanism-change test\<close>

text \<open>
  \<^verbatim>\<open>str\<close> of a float that holds a whole number (of magnitude below \<open>10^16\<close>):
  the decimal digits followed by \<^verbatim>\<open>.0\<close>. This is what \<^verbatim>\<open>astype(str)\<close> writes for
  the entries of a float array such as \<^verbatim>\<open>np.ones(k)\<close>.
\<close>

fun digits :: "nat \<Rightarrow> string" where
  "digits n = (if n < 10 then [''0123456789'' ! n]
               else digits (n div 10) @ [''0123456789'' ! (n mod 10)])"

declare digits.simps [simp del]

definition float_str :: "int \<Rightarrow> string" where
  "float_str x = (if x < 0 then ''-'' else []) @ digits (nat \<bar>x\<bar>) @ ''.0''"

text \<open>
  \<^verbatim>\<open>data_set_indices = np.ones(num_samples_for_testing * 2)
  data_set_indices[num_samples_for_testing:] = -1
  data_set_indices = data_set_indices.astype(str)\<close>
  The float array is the list of its (whole) values.
\<close>

definition data_set_indices :: "nat \<Rightarrow> string list" where
  "data_set_indices num_samples_for_testing =
     (let ones = replicate (num_samples_for_testing * 2) (1 :: int);
          signed = take num_samples_for_testing ones
                   @ replicate (length ones - num_samples_for_testing) (- 1)
      in map float_str signed)"

text \<open>
  \<^verbatim>\<open>np.vstack([shape_into_2d(a[original_indices]), shape_into_2d(b[new_indices])])\<close>
\<close>

definition stack_selected :: "'a list \<Rightarrow> nat list \<Rightarrow> 'a list \<Rightarrow> nat list \<Rightarrow> error + 'a list" where
  "stack_selected a original_indices b new_indices =
     (case take_rows a original_indices of
        Inl e \<Rightarrow> Inl e
      | Inr upper \<Rightarrow>
          (case take_rows b new_indices of
             Inl e \<Rightarrow> Inl e
           | Inr lower \<Rightarrow> Inr (upper @ lower)))"

text \<open>The statements of \<^verbatim>\<open>mechanism_change_test\<close> after the two argument checks.
  Behind the checks the parent arrays are both given or both missing; subscripting a
  missing one would be Python's \<^verbatim>\<open>TypeError\<close>.\<close>

definition subsample_and_test ::
  "(nat \<Rightarrow> int \<Rightarrow> (nat list, 'w) eff)
     \<Rightarrow> ('a list \<Rightarrow> string list \<Rightarrow> (real, 'w) eff)
     \<Rightarrow> ('a list \<Rightarrow> string list \<Rightarrow> 'b list \<Rightarrow> (real, 'w) eff)
     \<Rightarrow> 'a list \<Rightarrow> 'a list \<Rightarrow> 'b list option \<Rightarrow> 'b list option \<Rightarrow> (real, 'w) eff" where
  "subsample_and_test choice independence_test conditional_independence_test
       target_original_data target_new_data parents_original_data parents_new_data =
     (let num_samples_for_testing = min (length target_original_data) (length target_new_data);
          labels = data_set_indices num_samples_for_testing
      in
      bind_eff (choice (length target_original_data) (int num_samples_for_testing))
        (\<lambda>original_indices.
      bind_eff (choice (length target_new_data) (int num_samples_for_testing))
        (\<lambda>new_indices.
      bind_eff (lift_result (stack_selected target_original_data original_indices
                               target_new_data new_indices))
        (\<lambda>joint_target_samples.
           case parents_original_data of
             None \<Rightarrow> independence_test joint_target_samples labels
           | Some parents_original \<Rightarrow>
               (case parents_new_data of
                  None \<Rightarrow> raise (Raised ''TypeError'')
                | Some parents_new \<Rightarrow>
                    bind_eff (lift_result (stack_selected parents_original original_indices
                                             parents_new new_indices))
                      (\<lambda>joint_parent_data.
                         conditional_independence_test joint_target_samples labels
                           joint_parent_data))))))"

definition mechanism_change_test ::
  "(nat \<Rightarrow> int \<Rightarrow> (nat list, 'w) eff)
     \<Rightarrow> ('a list \<Rightarrow> string list \<Rightarrow> (real, 'w) eff)
     \<Rightarrow> ('a list \<Rightarrow> string list \<Rightarrow> 'b list \<Rightarrow> (real, 'w) eff)
     \<Rightarrow> 'a list \<Rightarrow> 'a list \<Rightarrow> 'b list option \<Rightarrow> 'b list option \<Rightarrow> (real, 'w) eff" where
  "mechanism_change_test choice independence_test conditional_independence_test
       target_original_data target_new_data parents_original_data parents_new_data =
     (if parents_original_data \<noteq> None \<and> parents_new_data = None
      then raise (ValueError ''Original parents data were given, but no new parents data!'')
      else if parents_original_data = None \<and> parents_new_data \<noteq> None
      then raise (ValueError ''New parents data were given, but no original parents data!'')
      else subsample_and_test choice independence_test conditional_independence_test
             target_original_data target_new_data parents_original_data parents_new_data)"

subsection \<open>The multi-node change screener\<close>

text \<open>The body of the loop of \<^verbatim>\<open>_check_significant_mechanism_change\<close>: the p-value of
  one node.\<close>

definition node_p_value ::
  "(nat \<Rightarrow> int \<Rightarrow> (nat list, 'w) eff)
     \<Rightarrow> ('v option list \<Rightarrow> string list \<Rightarrow> (real, 'w) eff)
     \<Rightarrow> ('v option list \<Rightarrow> string list \<Rightarrow> 'v option list list \<Rightarrow> (real, 'w) eff)
     \<Rightarrow> ('n, 'm) digraph \<Rightarrow> ('n, 'v) dataframe \<Rightarrow> ('n, 'v) dataframe \<Rightarrow> 'n \<Rightarrow> (real, 'w) eff" where
  "node_p_value choice independence_test conditional_independence_test graph old_data new_data
       node =
     (if is_root_node graph node
      then
        bind_eff (lift_result (column old_data node)) (\<lambda>target_original_data.
        bind_eff (lift_result (column new_data node)) (\<lambda>target_new_data.
          mechanism_change_test choice independence_test conditional_independence_test
            target_original_data target_new_data None None))
      else
        bind_eff (lift_result (select_columns old_data (get_ordered_predecessors graph node)))
          (\<lambda>parents_org_data.
        bind_eff (lift_result (select_columns new_data (get_ordered_predecessors graph node)))
          (\<lambda>parents_new_data.
        bind_eff (lift_result (column old_data node)) (\<lambda>target_original_data.
        bind_eff (lift_result (column new_data node)) (\<lambda>target_new_data.
          mechanism_change_test choice independence_test conditional_independence_test
            target_original_data target_new_data
            (Some parents_org_data) (Some parents_new_data))))))"

text \<open>The loop: \<^verbatim>\<open>all_p_values\<close>, in node-iteration order.\<close>

fun all_p_values ::
  "(nat \<Rightarrow> int \<Rightarrow> (nat list, 'w) eff)
     \<Rightarrow> ('v option list \<Rightarrow> string list \<Rightarrow> (real, 'w) eff)
     \<Rightarrow> ('v option list \<Rightarrow> string list \<Rightarrow> 'v option list list \<Rightarrow> (real, 'w) eff)
     \<Rightarrow> ('n, 'm) digraph \<Rightarrow> ('n, 'v) dataframe \<Rightarrow> ('n, 'v) dataframe \<Rightarrow> 'n list
     \<Rightarrow> (real list, 'w) eff" where
  "all_p_values choice independence_test conditional_independence_test graph old_data new_data
       [] = unit_eff []"
| "all_p_values choice independence_test conditional_independence_test graph old_data new_data
       (node # rest) =
     bind_eff (node_p_value choice independence_test conditional_independence_test graph
                 old_data new_data node) (\<lambda>p.
     bind_eff (all_p_values choice independence_test conditional_independence_test graph
                 old_data new_data rest) (\<lambda>ps.
       unit_eff (p # ps)))"

text \<open>
  \<open>multipletests p_values level method\<close> stands for the rejection vector
  \<^verbatim>\<open>multipletests(all_p_values, significance_level, method=fdr_control_method)[0]\<close> of
  statsmodels; it may raise. \<^verbatim>\<open>dict(zip(graph.nodes, successes))\<close> stops at the shorter
  of the two sequences, and a later pair overrides an earlier one with the same key.
\<close>

definition check_significant_mechanism_change ::
  "(real list \<Rightarrow> real \<Rightarrow> string \<Rightarrow> error + bool list)
     \<Rightarrow> (nat \<Rightarrow> int \<Rightarrow> (nat list, 'w) eff)
     \<Rightarrow> ('v option list \<Rightarrow> string list \<Rightarrow> (real, 'w) eff)
     \<Rightarrow> ('v option list \<Rightarrow> string list \<Rightarrow> 'v option list list \<Rightarrow> (real, 'w) eff)
     \<Rightarrow> ('n, 'm) digraph \<Rightarrow> ('n, 'v) dataframe \<Rightarrow> ('n, 'v) dataframe \<Rightarrow> real \<Rightarrow> string option
     \<Rightarrow> ('n \<rightharpoonup> bool, 'w) eff" where
  "check_significant_mechanism_change multipletests choice independence_test
       conditional_independence_test graph old_data new_data significance_level
       fdr_control_method =
     bind_eff (all_p_values choice independence_test conditional_independence_test graph
                 old_data new_data (nodes graph)) (\<lambda>p_values.
     bind_eff (case fdr_control_method of
                 None \<Rightarrow> unit_eff (map (\<lambda>p. p \<le> significance_level) p_values)
               | Some method \<Rightarrow> lift_result (multipletests p_values significance_level method))
       (\<lambda>successes. unit_eff (Map.empty (nodes graph [\<mapsto>] successes))))"

subsection \<open>The local distribution-change scorer\<close>

text \<open>
  \<^verbatim>\<open>joint_parent_samples = np.vstack([parent_original_data, parent_new_data])
  joint_parent_samples = joint_parent_samples[np.random.choice(
      joint_parent_samples.shape[0],
      min(joint_parent_samples.shape[0], max_num_evaluation_samples), replace=False)]\<close>
  \<open>choice n k\<close> stands for \<^verbatim>\<open>np.random.choice(n, k, replace=False)\<close>.
\<close>

definition joint_parent_samples ::
  "(nat \<Rightarrow> int \<Rightarrow> (nat list, 'w) eff) \<Rightarrow> 'r list \<Rightarrow> 'r list \<Rightarrow> int \<Rightarrow> ('r list, 'w) eff" where
  "joint_parent_samples choice parent_original_data parent_new_data max_num_evaluation_samples =
     (let joint = parent_original_data @ parent_new_data in
      bind_eff (choice (length joint) (min (int (length joint)) max_num_evaluation_samples))
        (\<lambda>indices. lift_result (take_rows joint indices)))"

text \<open>
  One pass of the loop body up to the addition:
  \<^verbatim>\<open>samples = repmat(joint_parent_sample, num_joint_samples, 1)
  difference_estimation_func(causal_model_original.draw_samples(samples),
                             causal_model_new.draw_samples(samples))\<close>
\<close>

definition row_difference ::
  "('m \<Rightarrow> 'r list \<Rightarrow> ('s, 'w) eff) \<Rightarrow> ('s \<Rightarrow> 's \<Rightarrow> (pyfloat, 'w) eff) \<Rightarrow> 'm \<Rightarrow> 'm \<Rightarrow> nat \<Rightarrow> 'r
     \<Rightarrow> (pyfloat, 'w) eff" where
  "row_difference draw_samples difference_estimation_func causal_model_original causal_model_new
       num_joint_samples joint_parent_sample =
     (let samples = replicate num_joint_samples joint_parent_sample in
      bind_eff (draw_samples causal_model_original samples) (\<lambda>drawn_original.
      bind_eff (draw_samples causal_model_new samples) (\<lambda>drawn_new.
        difference_estimation_func drawn_original drawn_new)))"

text \<open>
  The \<^verbatim>\<open>for\<close> loop, from the current \<^verbatim>\<open>result\<close> and \<^verbatim>\<open>run\<close>. The \<^verbatim>\<open>and\<close> of the
  source short-circuits, so \<^verbatim>\<open>result / old_result\<close> is only computed for an
  \<^verbatim>\<open>old_result\<close> that is not zero.
\<close>

fun score_loop ::
  "('r \<Rightarrow> (pyfloat, 'w) eff) \<Rightarrow> pyfloat \<Rightarrow> 'r list \<Rightarrow> pyfloat \<Rightarrow> nat
     \<Rightarrow> (pyfloat \<times> nat, 'w) eff" where
  "score_loop contribution early_stopping_percentage [] result run w = (Inr (result, run), w)"
| "score_loop contribution early_stopping_percentage (joint_parent_sample # rest) result run w =
     (case contribution joint_parent_sample w of
        (Inl e, w') \<Rightarrow> (Inl e, w')
      | (Inr d, w') \<Rightarrow>
          (let old_result = result;
               result = fadd result d;
               run = run + 1
           in if old_result \<noteq> Finite 0
                 \<and> fle (fsub (Finite 1) (fdiv result old_result)) early_stopping_percentage
              then (Inr (result, run), w')
              else score_loop contribution early_stopping_percentage rest result run w'))"

text \<open>Everything before the loop: the refitted clone and the evaluation pool.\<close>

definition prepare_evaluation ::
  "(nat \<Rightarrow> int \<Rightarrow> (nat list, 'w) eff) \<Rightarrow> ('m \<Rightarrow> ('m, 'w) eff) \<Rightarrow> ('m \<Rightarrow> 'r list \<Rightarrow> 't list \<Rightarrow> ('m, 'w) eff)
     \<Rightarrow> 'r list \<Rightarrow> 'r list \<Rightarrow> 't list \<Rightarrow> 'm \<Rightarrow> int \<Rightarrow> ('m \<times> 'r list, 'w) eff" where
  "prepare_evaluation choice clone fit parent_original_data parent_new_data target_new_data
       causal_model_original max_num_evaluation_samples =
     bind_eff (clone causal_model_original) (\<lambda>cloned.
     bind_eff (fit cloned parent_new_data target_new_data) (\<lambda>causal_model_new.
     bind_eff (joint_parent_samples choice parent_original_data parent_new_data
                 max_num_evaluation_samples) (\<lambda>pool.
       unit_eff (causal_model_new, pool))))"

text \<open>\<^verbatim>\<open>return result / run\<close>: with an empty pool both are the integer 0 and Python
  raises.\<close>

definition estimate_distribution_change_score ::
  "(nat \<Rightarrow> int \<Rightarrow> (nat list, 'w) eff) \<Rightarrow> ('m \<Rightarrow> ('m, 'w) eff) \<Rightarrow> ('m \<Rightarrow> 'r list \<Rightarrow> 't list \<Rightarrow> ('m, 'w) eff)
     \<Rightarrow> ('m \<Rightarrow> 'r list \<Rightarrow> ('s, 'w) eff)
     \<Rightarrow> 'r list \<Rightarrow> 'r list \<Rightarrow> 't list \<Rightarrow> 'm \<Rightarrow> ('s \<Rightarrow> 's \<Rightarrow> (pyfloat, 'w) eff) \<Rightarrow> int \<Rightarrow> nat
     \<Rightarrow> pyfloat \<Rightarrow> (pyfloat, 'w) eff" where
  "estimate_distribution_change_score choice clone fit draw_samples
       parent_original_data parent_new_data target_new_data causal_model_original
       difference_estimation_func max_num_evaluation_samples num_joint_samples
       early_stopping_percentage =
     bind_eff (prepare_evaluation choice clone fit parent_original_data parent_new_data
                 target_new_data causal_model_original max_num_evaluation_samples)
       (\<lambda>(causal_model_new, pool).
     bind_eff (score_loop (row_difference draw_samples difference_estimation_func
                 causal_model_original causal_model_new num_joint_samples)
                 early_stopping_percentage pool (Finite 0) 0)
       (\<lambda>(result, run).
          if run = 0 then raise ZeroDivisionError
          else unit_eff (fdiv result (Finite (real run)))))"

text \<open>
  The values the difference function returns on the successive rows of a pool, as far
  as the rows can be evaluated one after the other from state \<open>w\<close>.
\<close>

fun contributions :: "('r \<Rightarrow> (pyfloat, 'w) eff) \<Rightarrow> 'r list \<Rightarrow> 'w \<Rightarrow> pyfloat list" where
  "contributions contribution [] w = []"
| "contributions contribution (r # rest) w =
     (case contribution r w of
        (Inl e, w') \<Rightarrow> []
      | (Inr d, w') \<Rightarrow> d # contributions contribution rest w')"

text \<open>The early-stopping rule in the words of the specification: the running sum after
  \<open>j\<close> rows, added up from 0 in the order of the rows, and the test made after the
  \<open>j\<close>-th row (counted from 1).\<close>

definition running_sum :: "pyfloat list \<Rightarrow> nat \<Rightarrow> pyfloat" where
  "running_sum ds j = foldl fadd (Finite 0) (take j ds)"

definition early_stop_after :: "pyfloat \<Rightarrow> pyfloat list \<Rightarrow> nat \<Rightarrow> bool" where
  "early_stop_after early_stop_pct ds j =
     (0 < j \<and> running_sum ds (j - 1) \<noteq> Finite 0
      \<and> fle (fsub (Finite 1) (fdiv (running_sum ds j) (running_sum ds (j - 1))))
            early_stop_pct)"

subsection \<open>Distribution-change scores of all nodes\<close>

text \<open>The body of the loop of \<^verbatim>\<open>estimate_distribution_change_scores\<close>: the score of one
  node. \<^verbatim>\<open>mechanism_changed_for_node[node]\<close> and \<^verbatim>\<open>causal_model.causal_mechanism(node)\<close>
  raise \<^verbatim>\<open>KeyError\<close> for a node without an entry.\<close>

definition node_score ::
  "(nat \<Rightarrow> int \<Rightarrow> (nat list, 'w) eff) \<Rightarrow> ('m \<Rightarrow> ('m, 'w) eff)
     \<Rightarrow> ('m \<Rightarrow> 'v option list list \<Rightarrow> 'v option list \<Rightarrow> ('m, 'w) eff)
     \<Rightarrow> ('m \<Rightarrow> 'v option list list \<Rightarrow> ('v option list, 'w) eff)
     \<Rightarrow> ('v option list \<Rightarrow> 'v option list \<Rightarrow> (pyfloat, 'w) eff)
     \<Rightarrow> ('n, 'm) digraph \<Rightarrow> ('n, 'v) dataframe \<Rightarrow> ('n, 'v) dataframe \<Rightarrow> int \<Rightarrow> nat \<Rightarrow> pyfloat
     \<Rightarrow> ('n \<rightharpoonup> bool) \<Rightarrow> 'n \<Rightarrow> (pyfloat, 'w) eff" where
  "node_score choice clone fit draw_samples difference_estimation_func graph original_data
       new_data max_num_evaluation_samples num_joint_samples early_stopping_percentage
       mechanism_changed_for_node node =
     (case mechanism_changed_for_node node of
        None \<Rightarrow> raise KeyError
      | Some changed \<Rightarrow>
          if changed then
            (if is_root_node graph node then
               bind_eff (lift_result (column original_data node)) (\<lambda>original_samples.
               bind_eff (lift_result (column new_data node)) (\<lambda>new_samples.
                 difference_estimation_func original_samples new_samples))
             else
               (let parent_nodes = get_ordered_predecessors graph node in
                bind_eff (lift_result (select_columns original_data parent_nodes))
                  (\<lambda>parent_original_data.
                bind_eff (lift_result (select_columns new_data parent_nodes))
                  (\<lambda>parent_new_data.
                bind_eff (lift_result (column new_data node)) (\<lambda>target_new_data.
                bind_eff (lift_result (case causal_mechanism graph node of
                                         None \<Rightarrow> Inl KeyError
                                       | Some mechanism \<Rightarrow> Inr mechanism))
                  (\<lambda>causal_model_original.
                   estimate_distribution_change_score choice clone fit draw_samples
                     parent_original_data parent_new_data target_new_data
                     causal_model_original difference_estimation_func
                     max_num_evaluation_samples num_joint_samples
                     early_stopping_percentage))))))
          else unit_eff (Finite 0))"

text \<open>The loop over \<^verbatim>\<open>causal_model.graph.nodes\<close>, filling \<^verbatim>\<open>results\<close>.\<close>

fun score_nodes :: "('n \<Rightarrow> (pyfloat, 'w) eff) \<Rightarrow> 'n list \<Rightarrow> ('n \<rightharpoonup> pyfloat) \<Rightarrow> ('n \<rightharpoonup> pyfloat, 'w) eff" where
  "score_nodes score [] results = unit_eff results"
| "score_nodes score (node # rest) results =
     bind_eff (score node) (\<lambda>v. score_nodes score rest (results(node \<mapsto> v)))"

text \<open>\<open>validate_causal_dag\<close> is the check of \<^verbatim>\<open>dowhy.graph\<close>, which returns nothing or
  raises.\<close>

definition estimate_distribution_change_scores ::
  "(('n, 'm) digraph \<Rightarrow> error + unit)
     \<Rightarrow> (real list \<Rightarrow> real \<Rightarrow> string \<Rightarrow> error + bool list)
     \<Rightarrow> (nat \<Rightarrow> int \<Rightarrow> (nat list, 'w) eff)
     \<Rightarrow> ('v option list \<Rightarrow> string list \<Rightarrow> (real, 'w) eff)
     \<Rightarrow> ('v option list \<Rightarrow> string list \<Rightarrow> 'v option list list \<Rightarrow> (real, 'w) eff)
     \<Rightarrow> ('m \<Rightarrow> ('m, 'w) eff)
     \<Rightarrow> ('m \<Rightarrow> 'v option list list \<Rightarrow> 'v option list \<Rightarrow> ('m, 'w) eff)
     \<Rightarrow> ('m \<Rightarrow> 'v option list list \<Rightarrow> ('v option list, 'w) eff)
     \<Rightarrow> ('n, 'm) digraph \<Rightarrow> ('n, 'v) dataframe \<Rightarrow> ('n, 'v) dataframe
     \<Rightarrow> ('v option list \<Rightarrow> 'v option list \<Rightarrow> (pyfloat, 'w) eff) \<Rightarrow> int \<Rightarrow> nat \<Rightarrow> pyfloat
     \<Rightarrow> real \<Rightarrow> string option \<Rightarrow> ('n \<rightharpoonup> pyfloat, 'w) eff" where
  "estimate_distribution_change_scores validate_causal_dag multipletests choice
       independence_test conditional_independence_test clone fit draw_samples
       graph original_data new_data difference_estimation_func max_num_evaluation_samples
       num_joint_samples early_stopping_percentage mechanism_change_test_significance_level
       mechanism_change_test_fdr_control_method =
     bind_eff (lift_result (validate_causal_dag graph)) (\<lambda>_.
     bind_eff (check_significant_mechanism_change multipletests choice independence_test
                 conditional_independence_test graph original_data new_data
                 mechanism_change_test_significance_level
                 mechanism_change_test_fdr_control_method)
       (\<lambda>mechanism_changed_for_node.
          score_nodes (node_score choice clone fit draw_samples difference_estimation_func
                         graph original_data new_data max_num_evaluation_samples
                         num_joint_samples early_stopping_percentage
                         mechanism_changed_for_node)
            (nodes graph) Map.empty))"

subsection \<open>Causal models as objects\<close>

text \<open>
  Graph objects live in a store: \<open>heap\<close> maps an address to the graph held there, and the
  addresses below \<open>used\<close> are the allocated ones. A graph is referred to by its address,
  or through a subgraph view, which keeps the address of the graph it was made of
  together with the nodes it shows and reads everything else through to that graph. A
  \<^verbatim>\<open>ProbabilisticCausalModel\<close> only wraps the reference to its graph and is identified
  with it. The collaborators work on their own state \<open>ext\<close> (the random source, the
  fitted state behind the mechanism handles); they are handed graphs by value and do
  not write to the store. \<open>fit_calls\<close> lists the calls of
  \<^verbatim>\<open>fit_causal_model_of_target\<close> made so far.
\<close>

datatype 'n gref = Graph nat | View nat "'n list"

record ('n, 'm, 'v, 'x) world =
  heap :: "nat \<Rightarrow> ('n, 'm) digraph"
  used :: nat
  fit_calls :: "('n gref \<times> 'n \<times> ('n, 'v) dataframe) list"
  ext :: 'x

fun address :: "'n gref \<Rightarrow> nat" where
  "address (Graph a) = a"
| "address (View a shown) = a"

definition induced_subgraph :: "('n, 'm) digraph \<Rightarrow> 'n list \<Rightarrow> ('n, 'm) digraph" where
  "induced_subgraph g shown =
     \<lparr>nodes = filter (\<lambda>n. n \<in> set shown) (nodes g),
      edges = filter (\<lambda>(u, v). u \<in> set shown \<and> v \<in> set shown) (edges g),
      causal_mechanism = causal_mechanism g |` set shown,
      parents_during_fit = parents_during_fit g |` set shown\<rparr>"

fun graph_of :: "('n, 'm, 'v, 'x) world \<Rightarrow> 'n gref \<Rightarrow> ('n, 'm) digraph" where
  "graph_of w (Graph a) = heap w a"
| "graph_of w (View a shown) = induced_subgraph (heap w a) shown"

text \<open>A collaborator call from within the store: only \<open>ext\<close> changes.\<close>

definition on_ext :: "('a, 'x) eff \<Rightarrow> ('a, ('n, 'm, 'v, 'x) world) eff" where
  "on_ext m = (\<lambda>w. case m (ext w) of (r, x) \<Rightarrow> (r, w\<lparr>ext := x\<rparr>))"

subsection \<open>The conditional refit\<close>

text \<open>
  \<^verbatim>\<open>fit_causal_model_of_target(causal_model, node, data)\<close> of
  \<^verbatim>\<open>dowhy.gcm.fitting_sampling\<close> is not under src/. The fitting is the collaborator
  \<open>fit\<close>, which may raise; the call is recorded.
\<close>

definition fit_causal_model_of_target ::
  "('n gref \<Rightarrow> 'n \<Rightarrow> ('n, 'v) dataframe \<Rightarrow> (unit, 'x) eff)
     \<Rightarrow> 'n gref \<Rightarrow> 'n \<Rightarrow> ('n, 'v) dataframe \<Rightarrow> (unit, ('n, 'm, 'v, 'x) world) eff" where
  "fit_causal_model_of_target fit causal_model node training_data =
     (\<lambda>w. on_ext (fit causal_model node training_data)
             (w\<lparr>fit_calls := fit_calls w @ [(causal_model, node, training_data)]\<rparr>))"

text \<open>The loop of \<^verbatim>\<open>_fit_accounting_for_mechanism_change\<close> over the nodes of the new
  model's graph.\<close>

fun refit_nodes ::
  "('n gref \<Rightarrow> 'n \<Rightarrow> ('n, 'v) dataframe \<Rightarrow> (unit, 'x) eff) \<Rightarrow> ('n \<rightharpoonup> bool)
     \<Rightarrow> 'n gref \<Rightarrow> 'n gref \<Rightarrow> ('n, 'v) dataframe \<Rightarrow> ('n, 'v) dataframe \<Rightarrow> ('n, 'v) dataframe
     \<Rightarrow> 'n list \<Rightarrow> (unit, ('n, 'm, 'v, 'x) world) eff" where
  "refit_nodes fit mechanism_changed_for_node causal_model_old causal_model_new
       old_data new_data joint_data [] = unit_eff ()"
| "refit_nodes fit mechanism_changed_for_node causal_model_old causal_model_new
       old_data new_data joint_data (node # rest) =
     (case mechanism_changed_for_node node of
        None \<Rightarrow> raise KeyError
      | Some changed \<Rightarrow>
          bind_eff
            (if changed then
               bind_eff (fit_causal_model_of_target fit causal_model_old node old_data) (\<lambda>_.
                 fit_causal_model_of_target fit causal_model_new node new_data)
             else
               bind_eff (fit_causal_model_of_target fit causal_model_old node joint_data) (\<lambda>_.
                 fit_causal_model_of_target fit causal_model_new node joint_data))
            (\<lambda>_. refit_nodes fit mechanism_changed_for_node causal_model_old causal_model_new
                    old_data new_data joint_data rest))"

definition fit_accounting_for_mechanism_change ::
  "(real list \<Rightarrow> real \<Rightarrow> string \<Rightarrow> error + bool list)
     \<Rightarrow> (nat \<Rightarrow> int \<Rightarrow> (nat list, 'x) eff)
     \<Rightarrow> ('v option list \<Rightarrow> string list \<Rightarrow> (real, 'x) eff)
     \<Rightarrow> ('v option list \<Rightarrow> string list \<Rightarrow> 'v option list list \<Rightarrow> (real, 'x) eff)
     \<Rightarrow> ('n gref \<Rightarrow> 'n \<Rightarrow> ('n, 'v) dataframe \<Rightarrow> (unit, 'x) eff)
     \<Rightarrow> 'n gref \<Rightarrow> 'n gref \<Rightarrow> ('n, 'v) dataframe \<Rightarrow> ('n, 'v) dataframe \<Rightarrow> real \<Rightarrow> string option
     \<Rightarrow> ('n \<rightharpoonup> bool, ('n, 'm, 'v, 'x) world) eff" where
  "fit_accounting_for_mechanism_change multipletests choice independence_test
       conditional_independence_test fit causal_model_old causal_model_new old_data new_data
       significance_level fdr_control_method =
     bind_eff
       (\<lambda>w. on_ext (check_significant_mechanism_change multipletests choice independence_test
                       conditional_independence_test (graph_of w causal_model_old) old_data
                       new_data significance_level fdr_control_method) w)
       (\<lambda>mechanism_changed_for_node.
     (let joint_data = pd_concat old_data new_data in
      bind_eff
        (\<lambda>w. refit_nodes fit mechanism_changed_for_node causal_model_old causal_model_new
                old_data new_data joint_data (nodes (graph_of w causal_model_new)) w)
        (\<lambda>_. unit_eff mechanism_changed_for_node)))"

text \<open>The fit calls the claim is stated with: the data sets one model's mechanism of
  one node was fitted on, in the order of the calls.\<close>

definition fitted_on ::
  "('n gref \<times> 'n \<times> ('n, 'v) dataframe) list \<Rightarrow> 'n gref \<Rightarrow> 'n \<Rightarrow> ('n, 'v) dataframe list" where
  "fitted_on calls causal_model node =
     map (\<lambda>(m, n, training_data). training_data)
       (filter (\<lambda>(m, n, training_data). m = causal_model \<and> n = node) calls)"

subsection \<open>The marginal-change Shapley attributor\<close>

text \<open>
  Modelled from the spec: \<^verbatim>\<open>ProbabilisticCausalModel.set_causal_mechanism\<close> and
  \<^verbatim>\<open>causal_mechanism\<close> of \<^verbatim>\<open>dowhy.gcm.cms\<close> are not under src/. The causal model exposes
  get and set of a per-node mechanism: the mechanism is the node attribute
  \<^verbatim>\<open>CAUSAL_MECHANISM\<close> of the model's graph, and reading it for a node that has none
  raises \<^verbatim>\<open>KeyError\<close>.
\<close>

definition set_causal_mechanism :: "nat \<Rightarrow> 'n \<Rightarrow> 'm \<Rightarrow> (unit, ('n, 'm, 'v, 'x) world) eff" where
  "set_causal_mechanism a node mechanism =
     (\<lambda>w. (Inr (),
            w\<lparr>heap := (heap w)
                 (a := (heap w a)\<lparr>causal_mechanism :=
                                   (causal_mechanism (heap w a))(node \<mapsto> mechanism)\<rparr>)\<rparr>))"

fun mechanisms_of :: "('n, 'm) digraph \<Rightarrow> 'n list \<Rightarrow> error + 'm list" where
  "mechanisms_of g [] = Inr []"
| "mechanisms_of g (x # xs) =
     (case causal_mechanism g x of
        None \<Rightarrow> Inl KeyError
      | Some mechanism \<Rightarrow>
          (case mechanisms_of g xs of
             Inl e \<Rightarrow> Inl e
           | Inr ms \<Rightarrow> Inr (mechanism # ms)))"

text \<open>
  \<^verbatim>\<open>for i in range(len(old_causal_models)):
      if subset[i] == 1:
          causal_model.set_causal_mechanism(nodes[i], new_causal_models[i])
      else:
          causal_model.set_causal_mechanism(nodes[i], old_causal_models[i])\<close>
  over the indices still to do; a subscript past the end raises \<^verbatim>\<open>IndexError\<close>.
\<close>

fun assign_mechanisms ::
  "nat \<Rightarrow> 'n list \<Rightarrow> int list \<Rightarrow> 'm list \<Rightarrow> 'm list \<Rightarrow> nat list
     \<Rightarrow> (unit, ('n, 'm, 'v, 'x) world) eff" where
  "assign_mechanisms a sorted_nodes coalition old_causal_models new_causal_models [] = unit_eff ()"
| "assign_mechanisms a sorted_nodes coalition old_causal_models new_causal_models (i # todo) =
     (if length coalition \<le> i then raise IndexError
      else if length sorted_nodes \<le> i then raise IndexError
      else if coalition ! i = 1 \<and> length new_causal_models \<le> i then raise IndexError
      else if coalition ! i \<noteq> 1 \<and> length old_causal_models \<le> i then raise IndexError
      else
        bind_eff (set_causal_mechanism a (sorted_nodes ! i)
                    (if coalition ! i = 1 then new_causal_models ! i else old_causal_models ! i))
          (\<lambda>_. assign_mechanisms a sorted_nodes coalition old_causal_models new_causal_models
                  todo))"

text \<open>
  \<^verbatim>\<open>for node in causal_model.graph.nodes:
      causal_model.graph.nodes[node][PARENTS_DURING_FIT] =
          get_ordered_predecessors(causal_model.graph, node)\<close>
\<close>

fun write_parents :: "nat \<Rightarrow> 'n list \<Rightarrow> (unit, ('n, 'm, 'v, 'x) world) eff" where
  "write_parents a [] = unit_eff ()"
| "write_parents a (node # rest) =
     bind_eff
       (\<lambda>w. (Inr (),
              w\<lparr>heap := (heap w)
                   (a := (heap w a)\<lparr>parents_during_fit :=
                                     (parents_during_fit (heap w a))
                                       (node \<mapsto> get_ordered_predecessors (heap w a) node)\<rparr>)\<rparr>))
       (\<lambda>_. write_parents a rest)"

text \<open>
  The closure \<^verbatim>\<open>attribution_set_function\<close>, with the variables it captures as
  arguments; its argument \<^verbatim>\<open>subset\<close> is called \<open>coalition\<close> here. \<open>graph_factory\<close>
  returns the address of the graph it made; \<open>draw_samples\<close> stands for \<^verbatim>\<open>draw_samples(causal_model, num_samples)\<close> on a model with the given graph.
\<close>

definition attribution_set_function ::
  "('n gref \<Rightarrow> (nat, ('n, 'm, 'v, 'x) world) eff)
     \<Rightarrow> (('n, 'm) digraph \<Rightarrow> nat \<Rightarrow> (('n, 'v) dataframe, 'x) eff)
     \<Rightarrow> ('v option list \<Rightarrow> 'v option list \<Rightarrow> (pyfloat, 'x) eff)
     \<Rightarrow> 'n gref \<Rightarrow> 'm list \<Rightarrow> 'm list \<Rightarrow> 'v option list \<Rightarrow> 'n \<Rightarrow> nat \<Rightarrow> int list
     \<Rightarrow> (pyfloat, ('n :: linorder, 'm, 'v, 'x) world) eff" where
  "attribution_set_function graph_factory draw_samples difference_estimation_func
       causal_model_old old_causal_models new_causal_models target_samples_old target_node
       num_samples coalition =
     (if list_all (\<lambda>b. b = 0) coalition then unit_eff (Finite 0)
      else
        bind_eff (graph_factory causal_model_old) (\<lambda>causal_model.
        bind_eff (\<lambda>w. (Inr (sort (nodes (heap w causal_model))), w)) (\<lambda>sorted_nodes.
        bind_eff (assign_mechanisms causal_model sorted_nodes coalition old_causal_models
                    new_causal_models [0..<length old_causal_models]) (\<lambda>_.
        bind_eff (\<lambda>w. write_parents causal_model (nodes (heap w causal_model)) w) (\<lambda>_.
        bind_eff (\<lambda>w. on_ext (draw_samples (heap w causal_model) num_samples) w) (\<lambda>samples.
        bind_eff (lift_result (column samples target_node)) (\<lambda>target_samples_new.
          on_ext (difference_estimation_func target_samples_old target_samples_new))))))))"

text \<open>
  \<^verbatim>\<open>estimate_shapley_values\<close> of \<^verbatim>\<open>dowhy.gcm.shapley\<close> is not under src/. An estimator is
  taken as a strategy: it returns the attributions, raises, asks for the value of a
  coalition and goes on with the answer, or consults and changes the collaborators'
  state (the random source) and goes on. An exception of the set function ends the
  estimation.
\<close>

datatype 'x shapley =
    Done "pyfloat list"
  | Fail error
  | Ask "int list" "pyfloat \<Rightarrow> 'x shapley"
  | Step "'x \<Rightarrow> 'x" "'x \<Rightarrow> 'x shapley"

primrec run_shapley ::
  "'x shapley \<Rightarrow> (int list \<Rightarrow> (pyfloat, ('n, 'm, 'v, 'x) world) eff)
     \<Rightarrow> (pyfloat list, ('n, 'm, 'v, 'x) world) eff" where
  "run_shapley (Done attributions) set_function w = (Inr attributions, w)"
| "run_shapley (Fail e) set_function w = (Inl e, w)"
| "run_shapley (Ask coalition resume) set_function w =
     (case set_function coalition w of
        (Inl e, w') \<Rightarrow> (Inl e, w')
      | (Inr v, w') \<Rightarrow> run_shapley (resume v) set_function w')"
| "run_shapley (Step advance resume) set_function w =
     run_shapley (resume (ext w)) set_function (w\<lparr>ext := advance (ext w)\<rparr>)"

text \<open>\<^verbatim>\<open>{x: attributions[i] for i, x in enumerate(sorted(causal_model_old.graph.nodes))}\<close>\<close>

definition attributions_by_node :: "'n list \<Rightarrow> pyfloat list \<Rightarrow> error + ('n \<rightharpoonup> pyfloat)" where
  "attributions_by_node sorted_nodes attributions =
     (if length attributions < length sorted_nodes then Inl IndexError
      else Inr (Map.empty (sorted_nodes [\<mapsto>] take (length sorted_nodes) attributions)))"

definition estimate_marginal_distribution_change ::
  "('n gref \<Rightarrow> (nat, ('n, 'm, 'v, 'x) world) eff)
     \<Rightarrow> (('n, 'm) digraph \<Rightarrow> nat \<Rightarrow> (('n, 'v) dataframe, 'x) eff)
     \<Rightarrow> (nat \<Rightarrow> 'c \<Rightarrow> 'x shapley)
     \<Rightarrow> 'n gref \<Rightarrow> 'n gref \<Rightarrow> 'n \<Rightarrow> nat \<Rightarrow> ('v option list \<Rightarrow> 'v option list \<Rightarrow> (pyfloat, 'x) eff)
     \<Rightarrow> 'c \<Rightarrow> ('n \<rightharpoonup> pyfloat, ('n :: linorder, 'm, 'v, 'x) world) eff" where
  "estimate_marginal_distribution_change graph_factory draw_samples estimate_shapley_values
       causal_model_old causal_model_new target_node num_samples difference_estimation_func
       shapley_config =
     bind_eff (\<lambda>w. lift_result (mechanisms_of (graph_of w causal_model_old)
                                   (sort (nodes (graph_of w causal_model_old)))) w)
       (\<lambda>old_causal_models.
     bind_eff (\<lambda>w. lift_result (mechanisms_of (graph_of w causal_model_new)
                                   (sort (nodes (graph_of w causal_model_new)))) w)
       (\<lambda>new_causal_models.
     bind_eff (\<lambda>w. on_ext (draw_samples (graph_of w causal_model_old) num_samples) w)
       (\<lambda>samples.
     bind_eff (lift_result (column samples target_node)) (\<lambda>target_samples_old.
     bind_eff (run_shapley (estimate_shapley_values (length old_causal_models) shapley_config)
                 (attribution_set_function graph_factory draw_samples
                    difference_estimation_func causal_model_old old_causal_models
                    new_causal_models target_samples_old target_node num_samples))
       (\<lambda>attributions.
          (\<lambda>w. lift_result (attributions_by_node (sort (nodes (graph_of w causal_model_old)))
                               attributions) w))))))"

text \<open>
  \<^verbatim>\<open>node_connected_subgraph_view(graph, target_node)\<close> of \<^verbatim>\<open>dowhy.graph\<close> is not under
  src/: \<open>connected_nodes\<close> stands for the nodes it keeps. The result is a view of the
  graph it is applied to.
\<close>

definition node_connected_subgraph_view ::
  "(('n, 'm) digraph \<Rightarrow> 'n \<Rightarrow> 'n list) \<Rightarrow> ('n, 'm, 'v, 'x) world \<Rightarrow> 'n gref \<Rightarrow> 'n \<Rightarrow> 'n gref" where
  "node_connected_subgraph_view connected_nodes w g target_node =
     View (address g) (connected_nodes (graph_of w g) target_node)"

definition distribution_change_of_graphs ::
  "(('n, 'm) digraph \<Rightarrow> error + unit)
     \<Rightarrow> (('n, 'm) digraph \<Rightarrow> 'n \<Rightarrow> 'n list)
     \<Rightarrow> (('n, 'm) digraph \<Rightarrow> nat \<Rightarrow> (('n, 'v) dataframe, 'x) eff)
     \<Rightarrow> (nat \<Rightarrow> 'c \<Rightarrow> 'x shapley)
     \<Rightarrow> 'n gref \<Rightarrow> 'n gref \<Rightarrow> 'n \<Rightarrow> nat \<Rightarrow> ('v option list \<Rightarrow> 'v option list \<Rightarrow> (pyfloat, 'x) eff)
     \<Rightarrow> 'c \<Rightarrow> ('n gref \<Rightarrow> (nat, ('n, 'm, 'v, 'x) world) eff)
     \<Rightarrow> ('n \<rightharpoonup> pyfloat, ('n :: linorder, 'm, 'v, 'x) world) eff" where
  "distribution_change_of_graphs validate_causal_dag connected_nodes draw_samples
       estimate_shapley_values causal_model_old causal_model_new target_node num_samples
       difference_estimation_func shapley_config graph_factory =
     bind_eff (\<lambda>w. lift_result (validate_causal_dag (graph_of w causal_model_old)) w) (\<lambda>_.
     bind_eff (\<lambda>w. lift_result (validate_causal_dag (graph_of w causal_model_new)) w) (\<lambda>_.
       (\<lambda>w. estimate_marginal_distribution_change graph_factory draw_samples
               estimate_shapley_values
               (node_connected_subgraph_view connected_nodes w causal_model_old target_node)
               (node_connected_subgraph_view connected_nodes w causal_model_new target_node)
               target_node num_samples difference_estimation_func shapley_config w)))"

text \<open>
  The contract the docstrings put on \<open>graph_factory\<close> (``this function must copy nodes
  and edges''): it makes a new graph object, with the nodes and edges of its argument,
  and leaves the graphs that exist alone.
\<close>

definition copies_graph :: "('n gref \<Rightarrow> (nat, ('n, 'm, 'v, 'x) world) eff) \<Rightarrow> bool" where
  "copies_graph graph_factory =
     (\<forall>g w r w'. graph_factory g w = (r, w') \<longrightarrow>
        used w \<le> used w' \<and> (\<forall>a < used w. heap w' a = heap w a)
        \<and> (\<forall>a. r = Inr a \<longrightarrow>
              used w \<le> a \<and> a < used w'
              \<and> nodes (heap w' a) = nodes (graph_of w g)
              \<and> edges (heap w' a) = edges (graph_of w g)))"

text \<open>
  The fitted state of the mechanism objects is part of the collaborators' state;
  \<open>fitted\<close> stands for the function that reads it. A collaborator leaves it alone if
  no call changes what \<open>fitted\<close> reads; likewise a graph factory, and an estimator in
  the steps it takes between two calls of the set function.
\<close>

definition leaves :: "('x \<Rightarrow> 'f) \<Rightarrow> ('a, 'x) eff \<Rightarrow> bool" where
  "leaves fitted collaborator =
     (\<forall>x r x'. collaborator x = (r, x') \<longrightarrow> fitted x' = fitted x)"

definition factory_leaves ::
  "('x \<Rightarrow> 'f) \<Rightarrow> ('n gref \<Rightarrow> (nat, ('n, 'm, 'v, 'x) world) eff) \<Rightarrow> bool" where
  "factory_leaves fitted graph_factory =
     (\<forall>g w r w'. graph_factory g w = (r, w') \<longrightarrow> fitted (ext w') = fitted (ext w))"

primrec steps_leave :: "('x \<Rightarrow> 'f) \<Rightarrow> 'x shapley \<Rightarrow> bool" where
  "steps_leave fitted (Done attributions) = True"
| "steps_leave fitted (Fail e) = True"
| "steps_leave fitted (Ask coalition resume) = (\<forall>v. steps_leave fitted (resume v))"
| "steps_leave fitted (Step advance resume) =
     ((\<forall>x. fitted (advance x) = fitted x) \<and> (\<forall>x. steps_leave fitted (resume x)))"

text \<open>The graphs that exist in \<open>w0\<close> and the fitted state are the same in \<open>w\<close>, and a
  computation keeps them if it leaves them the same.\<close>

definition untouched ::
  "('x \<Rightarrow> 'f) \<Rightarrow> ('n, 'm, 'v, 'x) world \<Rightarrow> ('n, 'm, 'v, 'x) world \<Rightarrow> bool" where
  "untouched fitted w0 w =
     (used w0 \<le> used w \<and> (\<forall>a < used w0. heap w a = heap w0 a)
      \<and> fitted (ext w) = fitted (ext w0))"

definition keeps ::
  "('x \<Rightarrow> 'f) \<Rightarrow> ('n, 'm, 'v, 'x) world \<Rightarrow> ('a, ('n, 'm, 'v, 'x) world) eff \<Rightarrow> bool" where
  "keeps fitted w0 m =
     (\<forall>w r w'. untouched fitted w0 w \<longrightarrow> m w = (r, w') \<longrightarrow> untouched fitted w0 w')"

subsection \<open>Concrete collaborators\<close>

text \<open>
  Small executable collaborators on which the theorems below are instantiated. The
  state is a counter of the draws made from the random source.
\<close>

definition example_choice :: "nat \<Rightarrow> int \<Rightarrow> (nat list, nat) eff" where
  "example_choice n k =
     (\<lambda>seed. if k < 0 \<or> int n < k then (Inl (ValueError ''Cannot take a larger sample''), seed)
             else (Inr (take (nat k) (rotate seed [0..<n])), Suc seed))"

text \<open>A mechanism is an offset added to the parent row; fitting moves it by one.\<close>

definition example_clone :: "real \<Rightarrow> (real, nat) eff" where
  "example_clone m = unit_eff m"

definition example_fit :: "real \<Rightarrow> real list \<Rightarrow> real list \<Rightarrow> (real, nat) eff" where
  "example_fit m X Y = unit_eff (m + 1)"

definition example_draw_samples :: "real \<Rightarrow> real list \<Rightarrow> (real list, nat) eff" where
  "example_draw_samples m samples = (\<lambda>seed. (Inr (map (\<lambda>x. x + m) samples), Suc seed))"

definition example_difference :: "real list \<Rightarrow> real list \<Rightarrow> (pyfloat, nat) eff" where
  "example_difference xs ys = unit_eff (Finite \<bar>sum_list xs - sum_list ys\<bar>)"

text \<open>A difference function in the manner of a divergence estimate: infinite for two
  samples that share no value, zero otherwise.\<close>

definition example_divergence :: "real list \<Rightarrow> real list \<Rightarrow> (pyfloat, nat) eff" where
  "example_divergence xs ys =
     unit_eff (if list_ex (\<lambda>x. x \<in> set ys) xs then Finite 0 else PosInf)"

text \<open>An independence test that reports the mean label-weighted value, and a
  conditional one that adds the number of parent rows it was given.\<close>

definition example_independence_test :: "real list \<Rightarrow> string list \<Rightarrow> (real, nat) eff" where
  "example_independence_test samples labels =
     (\<lambda>seed. if length samples \<noteq> length labels then (Inl (ValueError ''Shape mismatch''), seed)
             else (Inr (1 / (1 + \<bar>sum_list (map (\<lambda>(x, l). if l = ''1.0'' then x else - x)
                                            (zip samples labels))\<bar>)), Suc seed))"

definition example_conditional_independence_test ::
  "real list \<Rightarrow> string list \<Rightarrow> real list list \<Rightarrow> (real, nat) eff" where
  "example_conditional_independence_test samples labels parents =
     (\<lambda>seed. if length samples \<noteq> length parents then (Inl (ValueError ''Shape mismatch''), seed)
             else example_independence_test samples labels seed)"

text \<open>
  A correction procedure with two methods: Bonferroni, rejecting the p-values that are
  at most \<^verbatim>\<open>alpha / ntests\<close>, and Benjamini-Hochberg, rejecting the p-values up to the
  largest sorted one with \<open>p\<^sub>k \<le> k / ntests * alpha\<close>. Like the corrections of statsmodels, which evaluate
  \<^verbatim>\<open>1. / ntests\<close> and \<^verbatim>\<open>alpha / float(ntests)\<close> for \<^verbatim>\<open>ntests = len(pvals)\<close> before looking
  at the method, it raises \<^verbatim>\<open>ZeroDivisionError\<close> on an empty vector.
\<close>

definition example_multipletests :: "real list \<Rightarrow> real \<Rightarrow> string \<Rightarrow> error + bool list" where
  "example_multipletests pvals alpha method =
     (let ntests = length pvals in
      if ntests = 0 then Inl ZeroDivisionError
      else if method = ''bonferroni'' then Inr (map (\<lambda>p. p \<le> alpha / real ntests) pvals)
      else if method = ''fdr_bh'' then
        (let sorted = sort pvals;
             passing = filter (\<lambda>k. sorted ! (k - 1) \<le> real k / real ntests * alpha)
                         [1..<Suc ntests]
         in if passing = [] then Inr (map (\<lambda>p. False) pvals)
            else Inr (map (\<lambda>p. p \<le> sorted ! (last passing - 1)) pvals))
      else Inl (ValueError ''method not recognized''))"

text \<open>A graph \<open>1 \<rightarrow> 2\<close> with mechanisms \<open>0\<close> and \<open>0\<close>, the graph without nodes, and two
  data sets over the columns \<open>1\<close> and \<open>2\<close>.\<close>

definition example_graph :: "(nat, real) digraph" where
  "example_graph =
     \<lparr>nodes = [1, 2], edges = [(1, 2)], causal_mechanism = [1 \<mapsto> 0, 2 \<mapsto> 0],
      parents_during_fit = Map.empty\<rparr>"

definition empty_graph :: "(nat, real) digraph" where
  "empty_graph =
     \<lparr>nodes = [], edges = [], causal_mechanism = Map.empty, parents_during_fit = Map.empty\<rparr>"

definition example_old_data :: "(nat, real) dataframe" where
  "example_old_data =
     \<lparr>columns = {1, 2}, rows = [[1 \<mapsto> 1, 2 \<mapsto> 2], [1 \<mapsto> 2, 2 \<mapsto> 4], [1 \<mapsto> 3, 2 \<mapsto> 6]]\<rparr>"

definition example_new_data :: "(nat, real) dataframe" where
  "example_new_data =
     \<lparr>columns = {1, 2}, rows = [[1 \<mapsto> 1, 2 \<mapsto> 5], [1 \<mapsto> 2, 2 \<mapsto> 7]]\<rparr>"

text \<open>The collaborators on columns of cells: a missing cell counts as \<open>0\<close>.\<close>

definition cell_values :: "real option list \<Rightarrow> real list" where
  "cell_values cells = map (\<lambda>cell. case cell of None \<Rightarrow> 0 | Some x \<Rightarrow> x) cells"

definition example_column_test :: "real option list \<Rightarrow> string list \<Rightarrow> (real, nat) eff" where
  "example_column_test samples labels = example_independence_test (cell_values samples) labels"

definition example_conditional_column_test ::
  "real option list \<Rightarrow> string list \<Rightarrow> real option list list \<Rightarrow> (real, nat) eff" where
  "example_conditional_column_test samples labels parents =
     example_conditional_independence_test (cell_values samples) labels (map cell_values parents)"

text \<open>Tests that refuse fewer than four samples, and data sets of a single row.\<close>

definition example_strict_test :: "real option list \<Rightarrow> string list \<Rightarrow> (real, nat) eff" where
  "example_strict_test samples labels =
     (\<lambda>seed. if length samples < 4 then (Inl (ValueError ''Too few samples''), Suc seed)
             else example_column_test samples labels seed)"

definition example_strict_conditional_test ::
  "real option list \<Rightarrow> string list \<Rightarrow> real option list list \<Rightarrow> (real, nat) eff" where
  "example_strict_conditional_test samples labels parents =
     (\<lambda>seed. if length samples < 4 then (Inl (ValueError ''Too few samples''), Suc seed)
             else example_conditional_column_test samples labels parents seed)"

definition single_row_old_data :: "(nat, real) dataframe" where
  "single_row_old_data = \<lparr>columns = {1, 2}, rows = [[1 \<mapsto> 1, 2 \<mapsto> 2]]\<rparr>"

definition single_row_new_data :: "(nat, real) dataframe" where
  "single_row_new_data = \<lparr>columns = {1, 2}, rows = [[1 \<mapsto> 1, 2 \<mapsto> 5]]\<rparr>"

text \<open>Mechanisms on rows of cells, and a graph validation that only looks for
  self-loops.\<close>

definition example_cell_fit ::
  "real \<Rightarrow> real option list list \<Rightarrow> real option list \<Rightarrow> (real, nat) eff" where
  "example_cell_fit m X Y = unit_eff (m + 1)"

definition example_cell_draw_samples ::
  "real \<Rightarrow> real option list list \<Rightarrow> (real option list, nat) eff" where
  "example_cell_draw_samples m samples =
     (\<lambda>seed. (Inr (map (\<lambda>row. Some (sum_list (cell_values row) + m)) samples), Suc seed))"

definition example_cell_difference ::
  "real option list \<Rightarrow> real option list \<Rightarrow> (pyfloat, nat) eff" where
  "example_cell_difference xs ys =
     unit_eff (Finite \<bar>sum_list (cell_values xs) - sum_list (cell_values ys)\<bar>)"

definition example_validate_causal_dag :: "(nat, real) digraph \<Rightarrow> error + unit" where
  "example_validate_causal_dag g =
     (if list_ex (\<lambda>(u, v). u = v) (edges g) then Inl (Raised ''Not a DAG'') else Inr ())"

text \<open>A store with two copies of the example graph, at the addresses \<open>0\<close> and \<open>1\<close>,
  and a fitting collaborator that only counts.\<close>

definition example_world :: "(nat, real, real, nat) world" where
  "example_world =
     \<lparr>heap = (\<lambda>a. if a < 2 then example_graph else empty_graph), used = 2,
      fit_calls = [], ext = 0\<rparr>"

definition example_fit_target :: "nat gref \<Rightarrow> nat \<Rightarrow> (nat, real) dataframe \<Rightarrow> (unit, nat) eff" where
  "example_fit_target causal_model node training_data = (\<lambda>seed. (Inr (), Suc seed))"

text \<open>
  \<^verbatim>\<open>networkx.DiGraph\<close> as graph factory: a new graph object with the nodes, the edges
  and the node attributes of its argument. A sampler that returns the mechanisms of
  the graph as one row, and an estimator for two players that asks for the coalitions
  \<open>[0, 0]\<close> and \<open>[0, 1]\<close>.
\<close>

definition nx_DiGraph :: "nat gref \<Rightarrow> (nat, (nat, real, real, 'x) world) eff" where
  "nx_DiGraph g =
     (\<lambda>w. (Inr (used w), w\<lparr>heap := (heap w)(used w := graph_of w g), used := Suc (used w)\<rparr>))"

definition example_sampler :: "(nat, real) digraph \<Rightarrow> nat \<Rightarrow> ((nat, real) dataframe, nat) eff" where
  "example_sampler g num_samples =
     (\<lambda>seed. (Inr \<lparr>columns = set (nodes g),
                   rows = replicate num_samples (causal_mechanism g)\<rparr>, Suc seed))"

definition example_shapley :: "nat \<Rightarrow> unit \<Rightarrow> nat shapley" where
  "example_shapley num_players config =
     Ask [0, 0] (\<lambda>v0. Step Suc (\<lambda>seed. Ask [0, 1] (\<lambda>v1. Done [v0, fsub v1 v0])))"

definition all_nodes :: "(nat, real) digraph \<Rightarrow> nat \<Rightarrow> nat list" where
  "all_nodes g target_node = nodes g"

text \<open>A store whose new model, at address \<open>1\<close>, has the mechanisms \<open>3\<close> and \<open>5\<close>.\<close>

definition example_models :: "(nat, real, real, nat) world" where
  "example_models =
     \<lparr>heap = (\<lambda>a. if a = 0 then example_graph
                  else if a = 1 then example_graph\<lparr>causal_mechanism := [1 \<mapsto> 3, 2 \<mapsto> 5]\<rparr>
                  else empty_graph),
      used = 2, fit_calls = [], ext = 0\<rparr>"

text \<open>
  A graph factory that hands back the graph object it was given, so that the result has
  the nodes and edges of the argument without being a new object.
\<close>

definition same_graph :: "nat gref \<Rightarrow> (nat, (nat, real, real, 'x) world) eff" where
  "same_graph g = (\<lambda>w. (Inr (address g), w))"

text \<open>
  Collaborators whose state is a seed together with the fitted parameters of the
  mechanisms, which they read but do not change; the same estimator and the same store
  over this state.
\<close>

definition with_parameters :: "('a, nat) eff \<Rightarrow> ('a, nat \<times> real list) eff" where
  "with_parameters collaborator =
     (\<lambda>(seed, parameters). case collaborator seed of
                               (r, seed') \<Rightarrow> (r, (seed', parameters)))"

definition example_fitted_sampler ::
  "(nat, real) digraph \<Rightarrow> nat \<Rightarrow> ((nat, real) dataframe, nat \<times> real list) eff" where
  "example_fitted_sampler g num_samples = with_parameters (example_sampler g num_samples)"

definition example_fitted_difference ::
  "real option list \<Rightarrow> real option list \<Rightarrow> (pyfloat, nat \<times> real list) eff" where
  "example_fitted_difference xs ys = with_parameters (example_cell_difference xs ys)"

definition example_fitted_shapley :: "nat \<Rightarrow> unit \<Rightarrow> (nat \<times> real list) shapley" where
  "example_fitted_shapley num_players config =
     Ask [0, 0] (\<lambda>v0. Step (\<lambda>(seed, parameters). (Suc seed, parameters))
       (\<lambda>state. Ask [0, 1] (\<lambda>v1. Done [v0, fsub v1 v0])))"

definition example_fitted_models :: "(nat, real, real, nat \<times> real list) world" where
  "example_fitted_models =
     \<lparr>heap = heap example_models, used = used example_models, fit_calls = [],
      ext = (0, [3, 5])\<rparr>"

section \<open>Properties\<close>

subsection \<open>Effects\<close>

lemma bind_eff_Inr:
  "bind_eff m f w = (Inr v, w') \<Longrightarrow> \<exists>a w1. m w = (Inr a, w1) \<and> f a w1 = (Inr v, w')"
  by (cases "m w"; cases "fst (m w)") (auto simp: bind_eff_def)

subsection \<open>The mechanism-change test\<close>

lemma float_str_one: "float_str 1 = ''1.0''"
  by code_simp

lemma float_str_minus_one: "float_str (- 1) = ''-1.0''"
  by code_simp

lemma data_set_indices_eq:
  "data_set_indices n = replicate n ''1.0'' @ replicate n ''-1.0''"
  by (simp add: data_set_indices_def Let_def float_str_one float_str_minus_one
      del: replicate.simps)

lemma stack_selected_in_range:
  "list_all (\<lambda>i. i < length a) ia \<Longrightarrow> list_all (\<lambda>i. i < length b) ib \<Longrightarrow>
   stack_selected a ia b ib = Inr (map (\<lambda>i. a ! i) ia @ map (\<lambda>i. b ! i) ib)"
  by (simp add: stack_selected_def take_rows_def)

lemma mechanism_change_test_root:
  assumes "n = min (length target_original_data) (length target_new_data)"
    and "choice (length target_original_data) (int n) w = (Inr original_indices, wa)"
    and "choice (length target_new_data) (int n) wa = (Inr new_indices, wb)"
    and "list_all (\<lambda>i. i < length target_original_data) original_indices"
    and "list_all (\<lambda>i. i < length target_new_data) new_indices"
  shows "mechanism_change_test choice independence_test conditional_independence_test
         target_original_data target_new_data None None w
       = independence_test
           (map (\<lambda>i. target_original_data ! i) original_indices
            @ map (\<lambda>i. target_new_data ! i) new_indices)
           (data_set_indices n) wb"
  using assms(2,3)
  by (simp add: mechanism_change_test_def subsample_and_test_def Let_def bind_eff_def
      lift_result_def assms(1) [symmetric] stack_selected_in_range [OF assms(4,5)])

lemma mechanism_change_test_nonroot:
  assumes "n = min (length target_original_data) (length target_new_data)"
    and "choice (length target_original_data) (int n) w = (Inr original_indices, wa)"
    and "choice (length target_new_data) (int n) wa = (Inr new_indices, wb)"
    and "list_all (\<lambda>i. i < length target_original_data) original_indices"
    and "list_all (\<lambda>i. i < length target_new_data) new_indices"
    and "list_all (\<lambda>i. i < length parents_original) original_indices"
    and "list_all (\<lambda>i. i < length parents_new) new_indices"
  shows "mechanism_change_test choice independence_test conditional_independence_test
         target_original_data target_new_data (Some parents_original) (Some parents_new) w
       = conditional_independence_test
           (map (\<lambda>i. target_original_data ! i) original_indices
            @ map (\<lambda>i. target_new_data ! i) new_indices)
           (data_set_indices n)
           (map (\<lambda>i. parents_original ! i) original_indices
            @ map (\<lambda>i. parents_new ! i) new_indices) wb"
  using assms(2,3)
  by (simp add: mechanism_change_test_def subsample_and_test_def Let_def bind_eff_def
      lift_result_def assms(1) [symmetric] stack_selected_in_range [OF assms(4,5)]
      stack_selected_in_range [OF assms(6,7)])

text \<open>
  Claim C6. If parent data is given for exactly one of the two regimes, the test raises
  the matching \<open>ValueError\<close> and leaves the state of the random source and of the
  pluggable tests untouched, whatever these collaborators are: nothing was subsampled
  and no test was called. If parent data is given for both regimes or for neither, the
  checks raise nothing and the call is the subsampling and testing that follows them.
\<close>

theorem asymmetric_parents_rejected:
  "(parents_original_data \<noteq> None \<and> parents_new_data = None \<longrightarrow>
      mechanism_change_test choice independence_test conditional_independence_test
        target_original_data target_new_data parents_original_data parents_new_data w
      = (Inl (ValueError ''Original parents data were given, but no new parents data!''), w))
   \<and> (parents_original_data = None \<and> parents_new_data \<noteq> None \<longrightarrow>
      mechanism_change_test choice independence_test conditional_independence_test
        target_original_data target_new_data parents_original_data parents_new_data w
      = (Inl (ValueError ''New parents data were given, but no original parents data!''), w))
   \<and> ((parents_original_data = None \<longleftrightarrow> parents_new_data = None) \<longrightarrow>
      mechanism_change_test choice independence_test conditional_independence_test
        target_original_data target_new_data parents_original_data parents_new_data w
      = subsample_and_test choice independence_test conditional_independence_test
          target_original_data target_new_data parents_original_data parents_new_data w)"
  by (auto simp: mechanism_change_test_def raise_def)

theorem asymmetric_parents_rejected_witness:
  "mechanism_change_test example_choice example_independence_test
       example_conditional_independence_test [1, 2, 3] [4, 6] (Some [[1], [2], [3]]) None 0
     = (Inl (ValueError ''Original parents data were given, but no new parents data!''), 0)
   \<and> mechanism_change_test example_choice example_independence_test
       example_conditional_independence_test [1, 2, 3] [4, 6] None (Some [[1], [2]]) 0
     = (Inl (ValueError ''New parents data were given, but no original parents data!''), 0)
   \<and> mechanism_change_test example_choice example_independence_test
       example_conditional_independence_test [1, 2, 3] [4, 6] (Some [[1], [2], [3]])
       (Some [[1], [2]]) 0
     = (Inr (1 / 8), 3)"
proof -
  have both: "subsample_and_test example_choice example_independence_test
       example_conditional_independence_test [1, 2, 3] [4, 6] (Some [[1], [2], [3]])
       (Some [[1], [2]]) 0 = (Inr (1 / 8), 3)"
    by code_simp
  show ?thesis
    using asymmetric_parents_rejected [of "Some [[1], [2], [3]]" None example_choice
        example_independence_test example_conditional_independence_test "[1, 2, 3]" "[4, 6]" 0]
      asymmetric_parents_rejected [of None "Some [[1], [2]]" example_choice
        example_independence_test example_conditional_independence_test "[1, 2, 3]" "[4, 6]" 0]
      asymmetric_parents_rejected [of "Some [[1], [2], [3]]" "Some [[1], [2]]" example_choice
        example_independence_test example_conditional_independence_test "[1, 2, 3]" "[4, 6]" 0]
    by (simp add: both)
qed

text \<open>
  Claim C5, as the code has it. The label vector holds the strings \<^verbatim>\<open>1.0\<close> and
  \<^verbatim>\<open>-1.0\<close> (a float array converted to strings), not \<^verbatim>\<open>1\<close> and \<^verbatim>\<open>-1\<close>. With
  \<open>n = min |old| |new|\<close>, the test asks the random source for \<open>n\<close> indices into the old
  samples and then for \<open>n\<close> indices into the new ones, without replacement; the labels
  are \<open>n\<close> times \<^verbatim>\<open>1.0\<close> followed by \<open>n\<close> times \<^verbatim>\<open>-1.0\<close>; the sample matrix handed to
  the test is the selected old target rows above the selected new ones, so that row \<open>i\<close>
  carries label \<^verbatim>\<open>1.0\<close> and row \<open>n + i\<close> label \<^verbatim>\<open>-1.0\<close>; with parent data the parent
  rows are stacked by the same indices.
\<close>

theorem balanced_labels_and_stacked_samples:
  assumes n: "n = min (length target_original_data) (length target_new_data)"
    and old_choice: "choice (length target_original_data) (int n) w = (Inr original_indices, wa)"
    and new_choice: "choice (length target_new_data) (int n) wa = (Inr new_indices, wb)"
    and lengths: "length original_indices = n" "length new_indices = n"
    and old_range: "list_all (\<lambda>i. i < length target_original_data) original_indices"
    and new_range: "list_all (\<lambda>i. i < length target_new_data) new_indices"
  shows "data_set_indices n = replicate n ''1.0'' @ replicate n ''-1.0''
    \<and> mechanism_change_test choice independence_test conditional_independence_test
         target_original_data target_new_data None None w
       = independence_test
           (map (\<lambda>i. target_original_data ! i) original_indices
            @ map (\<lambda>i. target_new_data ! i) new_indices)
           (data_set_indices n) wb
    \<and> (list_all (\<lambda>i. i < length parents_original) original_indices
       \<and> list_all (\<lambda>i. i < length parents_new) new_indices \<longrightarrow>
       mechanism_change_test choice independence_test conditional_independence_test
         target_original_data target_new_data (Some parents_original) (Some parents_new) w
       = conditional_independence_test
           (map (\<lambda>i. target_original_data ! i) original_indices
            @ map (\<lambda>i. target_new_data ! i) new_indices)
           (data_set_indices n)
           (map (\<lambda>i. parents_original ! i) original_indices
            @ map (\<lambda>i. parents_new ! i) new_indices) wb)
    \<and> (\<forall>i < n.
         (map (\<lambda>i. target_original_data ! i) original_indices
            @ map (\<lambda>i. target_new_data ! i) new_indices) ! i
           = target_original_data ! (original_indices ! i)
       \<and> data_set_indices n ! i = ''1.0''
       \<and> (map (\<lambda>i. target_original_data ! i) original_indices
            @ map (\<lambda>i. target_new_data ! i) new_indices) ! (n + i)
           = target_new_data ! (new_indices ! i)
       \<and> data_set_indices n ! (n + i) = ''-1.0'')"
proof -
  have root: "mechanism_change_test choice independence_test conditional_independence_test
         target_original_data target_new_data None None w
       = independence_test
           (map (\<lambda>i. target_original_data ! i) original_indices
            @ map (\<lambda>i. target_new_data ! i) new_indices)
           (data_set_indices n) wb"
    using n old_choice new_choice old_range new_range by (rule mechanism_change_test_root)
  have nonroot: "mechanism_change_test choice independence_test conditional_independence_test
         target_original_data target_new_data (Some parents_original) (Some parents_new) w
       = conditional_independence_test
           (map (\<lambda>i. target_original_data ! i) original_indices
            @ map (\<lambda>i. target_new_data ! i) new_indices)
           (data_set_indices n)
           (map (\<lambda>i. parents_original ! i) original_indices
            @ map (\<lambda>i. parents_new ! i) new_indices) wb"
    if "list_all (\<lambda>i. i < length parents_original) original_indices"
      and "list_all (\<lambda>i. i < length parents_new) new_indices"
    using n old_choice new_choice old_range new_range that
    by (rule mechanism_change_test_nonroot)
  have aligned: "(map (\<lambda>i. target_original_data ! i) original_indices
            @ map (\<lambda>i. target_new_data ! i) new_indices) ! i
           = target_original_data ! (original_indices ! i)
       \<and> data_set_indices n ! i = ''1.0''
       \<and> (map (\<lambda>i. target_original_data ! i) original_indices
            @ map (\<lambda>i. target_new_data ! i) new_indices) ! (n + i)
           = target_new_data ! (new_indices ! i)
       \<and> data_set_indices n ! (n + i) = ''-1.0''" if "i < n" for i
    using that lengths by (simp add: data_set_indices_eq nth_append)
  from root nonroot aligned show ?thesis
    by (simp add: data_set_indices_eq)
qed

theorem balanced_labels_and_stacked_samples_witness:
  "data_set_indices 2 = replicate 2 ''1.0'' @ replicate 2 ''-1.0''
   \<and> mechanism_change_test example_choice example_independence_test
       example_conditional_independence_test [1, 2, 3] [4, 6] None None 0
     = example_independence_test [1, 2, 6, 4] [''1.0'', ''1.0'', ''-1.0'', ''-1.0''] 2
   \<and> mechanism_change_test example_choice example_independence_test
       example_conditional_independence_test [1, 2, 3] [4, 6] (Some [[1], [2], [3]])
       (Some [[4], [6]]) 0
     = example_conditional_independence_test [1, 2, 6, 4]
         [''1.0'', ''1.0'', ''-1.0'', ''-1.0''] [[1], [2], [6], [4]] 2"
proof -
  have n: "(2 :: nat) = min (length [1, 2, 3 :: real]) (length [4, 6 :: real])" by simp
  have old_choice: "example_choice (length [1, 2, 3 :: real]) (int 2) 0 = (Inr [0, 1], 1)"
    by code_simp
  have new_choice: "example_choice (length [4, 6 :: real]) (int 2) 1 = (Inr [1, 0], 2)"
    by code_simp
  have lengths: "length [0, 1 :: nat] = 2" "length [1, 0 :: nat] = 2" by simp_all
  have old_range: "list_all (\<lambda>i. i < length [1, 2, 3 :: real]) [0, 1]" by simp
  have new_range: "list_all (\<lambda>i. i < length [4, 6 :: real]) [1, 0]" by simp
  have labels: "data_set_indices 2 = [''1.0'', ''1.0'', ''-1.0'', ''-1.0'']" by code_simp
  show ?thesis
    using balanced_labels_and_stacked_samples [where n = 2
        and target_original_data = "[1, 2, 3 :: real]" and target_new_data = "[4, 6 :: real]"
        and choice = example_choice and w = 0 and wa = 1 and wb = 2
        and original_indices = "[0, 1]" and new_indices = "[1, 0]"
        and independence_test = example_independence_test
        and conditional_independence_test = example_conditional_independence_test
        and parents_original = "[[1], [2], [3]]" and parents_new = "[[4], [6]]",
        OF n old_choice new_choice lengths old_range new_range]
    by (simp add: labels)
qed

theorem label_strings_counterexample:
  "data_set_indices 1 = [''1.0'', ''-1.0'']
   \<and> data_set_indices 1 \<noteq> [''1'', ''-1'']
   \<and> mechanism_change_test example_choice example_independence_test
       example_conditional_independence_test [5] [7] None None 0
     = example_independence_test [5, 7] [''1.0'', ''-1.0''] 2
   \<and> mechanism_change_test example_choice example_independence_test
       example_conditional_independence_test [5] [7] None None 0
     \<noteq> example_independence_test [5, 7] [''1'', ''-1''] 2"
  by code_simp

subsection \<open>The multi-node change screener\<close>

lemma map_upds_nth:
  "distinct ks \<Longrightarrow> length vs = length ks \<Longrightarrow> i < length ks \<Longrightarrow>
   (m(ks [\<mapsto>] vs)) (ks ! i) = Some (vs ! i)"
proof (induction ks arbitrary: vs i m)
  case Nil
  then show ?case by simp
next
  case (Cons k ks)
  then obtain v vs' where vs: "vs = v # vs'" by (cases vs) auto
  show ?case
  proof (cases i)
    case 0
    with Cons.prems vs show ?thesis by (simp add: map_upds_apply_nontin)
  next
    case (Suc j)
    with Cons.prems vs have "(m(k \<mapsto> v, ks [\<mapsto>] vs')) (ks ! j) = Some (vs' ! j)"
      by (intro Cons.IH) auto
    with Suc vs show ?thesis by simp
  qed
qed

lemma all_p_values_length:
  "all_p_values choice it cit graph old_data new_data ns w = (Inr ps, w') \<Longrightarrow>
   length ps = length ns"
proof (induction ns arbitrary: ps w)
  case Nil
  then show ?case by (simp add: unit_eff_def)
next
  case (Cons node rest)
  from Cons.prems obtain p w1 ps' where
    "node_p_value choice it cit graph old_data new_data node w = (Inr p, w1)"
    "all_p_values choice it cit graph old_data new_data rest w1 = (Inr ps', w')"
    "ps = p # ps'"
    by (auto simp: unit_eff_def dest!: bind_eff_Inr)
  with Cons.IH show ?case by auto
qed

lemma all_p_values_nth:
  "all_p_values choice it cit graph old_data new_data ns w = (Inr ps, w') \<Longrightarrow> i < length ns \<Longrightarrow>
   \<exists>wi wi'. node_p_value choice it cit graph old_data new_data (ns ! i) wi = (Inr (ps ! i), wi')"
proof (induction ns arbitrary: ps w i)
  case Nil
  then show ?case by simp
next
  case (Cons node rest)
  from Cons.prems obtain p w1 ps' where step:
    "node_p_value choice it cit graph old_data new_data node w = (Inr p, w1)"
    "all_p_values choice it cit graph old_data new_data rest w1 = (Inr ps', w')"
    "ps = p # ps'"
    by (auto simp: unit_eff_def dest!: bind_eff_Inr)
  show ?case
  proof (cases i)
    case 0
    with step show ?thesis by auto
  next
    case (Suc j)
    with Cons.prems have "j < length rest" by simp
    from Cons.IH [OF step(2) this] Suc step(3) show ?thesis by simp
  qed
qed

lemma all_p_values_raises:
  "all_p_values choice it cit graph old_data new_data done w = (Inr ps, w1) \<Longrightarrow>
   node_p_value choice it cit graph old_data new_data node w1 = (Inl e, w2) \<Longrightarrow>
   all_p_values choice it cit graph old_data new_data (done @ node # rest) w = (Inl e, w2)"
proof (induction "done" arbitrary: ps w)
  case Nil
  then show ?case by (simp add: unit_eff_def bind_eff_def)
next
  case (Cons n ns)
  from Cons.prems(1) obtain p wa ps' where step:
    "node_p_value choice it cit graph old_data new_data n w = (Inr p, wa)"
    "all_p_values choice it cit graph old_data new_data ns wa = (Inr ps', w1)"
    by (auto simp: unit_eff_def dest!: bind_eff_Inr)
  from Cons.IH [OF step(2) Cons.prems(2)] step(1) show ?case
    by (simp add: bind_eff_def)
qed

lemma node_p_value_root:
  "is_root_node graph node \<Longrightarrow> column old_data node = Inr target_original_data \<Longrightarrow>
   column new_data node = Inr target_new_data \<Longrightarrow>
   node_p_value choice it cit graph old_data new_data node w
     = mechanism_change_test choice it cit target_original_data target_new_data None None w"
  by (simp add: node_p_value_def bind_eff_def lift_result_def)

lemma node_p_value_nonroot:
  "\<not> is_root_node graph node \<Longrightarrow>
   select_columns old_data (get_ordered_predecessors graph node) = Inr parents_org_data \<Longrightarrow>
   select_columns new_data (get_ordered_predecessors graph node) = Inr parents_new_data \<Longrightarrow>
   column old_data node = Inr target_original_data \<Longrightarrow>
   column new_data node = Inr target_new_data \<Longrightarrow>
   node_p_value choice it cit graph old_data new_data node w
     = mechanism_change_test choice it cit target_original_data target_new_data
         (Some parents_org_data) (Some parents_new_data) w"
  by (simp add: node_p_value_def bind_eff_def lift_result_def)

lemma check_significant_mechanism_change_raises:
  "all_p_values choice it cit graph old_data new_data (nodes graph) w = (Inl e, w') \<Longrightarrow>
   check_significant_mechanism_change multipletests choice it cit graph old_data new_data
     significance_level fdr_control_method w = (Inl e, w')"
  by (simp add: check_significant_mechanism_change_def bind_eff_def)

text \<open>
  Claim C3. Let the loop have collected the p-values \<open>p_values\<close>, one per node and in node
  order, each the value the mechanism-change test returned for its node. Without an
  FDR-control method the screener returns the mapping that pairs the nodes with the
  comparisons \<open>p \<le> significance_level\<close>, so that every node is flagged exactly when its
  own p-value is at most the level. With a method it returns the mapping that pairs the
  nodes with the rejection vector of the correction applied to the whole p-value vector
  at that level (or passes on the exception of the correction), so that every node
  carries its entry of the rejection vector.
\<close>

theorem flags_follow_threshold_or_correction:
  assumes "all_p_values choice it cit graph old_data new_data (nodes graph) w
             = (Inr p_values, w')"
  shows "length p_values = length (nodes graph)
    \<and> (\<forall>i < length (nodes graph). \<exists>wi wi'.
          node_p_value choice it cit graph old_data new_data (nodes graph ! i) wi
            = (Inr (p_values ! i), wi'))
    \<and> check_significant_mechanism_change multipletests choice it cit graph old_data new_data
          significance_level None w
        = (Inr (Map.empty (nodes graph [\<mapsto>] map (\<lambda>p. p \<le> significance_level) p_values)), w')
    \<and> (distinct (nodes graph) \<longrightarrow>
          (\<forall>i < length (nodes graph).
             (Map.empty (nodes graph [\<mapsto>] map (\<lambda>p. p \<le> significance_level) p_values))
               (nodes graph ! i) = Some (p_values ! i \<le> significance_level)))
    \<and> check_significant_mechanism_change multipletests choice it cit graph old_data new_data
          significance_level (Some fdr_method) w
        = (case multipletests p_values significance_level fdr_method of
             Inl e \<Rightarrow> (Inl e, w')
           | Inr reject \<Rightarrow> (Inr (Map.empty (nodes graph [\<mapsto>] reject)), w'))
    \<and> (distinct (nodes graph) \<longrightarrow>
          (\<forall>reject. multipletests p_values significance_level fdr_method = Inr reject
               \<and> length reject = length (nodes graph) \<longrightarrow>
             (\<forall>i < length (nodes graph).
                (Map.empty (nodes graph [\<mapsto>] reject)) (nodes graph ! i) = Some (reject ! i))))"
proof -
  have len: "length p_values = length (nodes graph)"
    using assms by (rule all_p_values_length)
  have each: "\<forall>i < length (nodes graph). \<exists>wi wi'.
          node_p_value choice it cit graph old_data new_data (nodes graph ! i) wi
            = (Inr (p_values ! i), wi')"
    using all_p_values_nth [OF assms] by blast
  have uncorrected: "check_significant_mechanism_change multipletests choice it cit graph
          old_data new_data significance_level None w
        = (Inr (Map.empty (nodes graph [\<mapsto>] map (\<lambda>p. p \<le> significance_level) p_values)), w')"
    using assms
    by (simp add: check_significant_mechanism_change_def bind_eff_def unit_eff_def)
  have corrected: "check_significant_mechanism_change multipletests choice it cit graph
          old_data new_data significance_level (Some fdr_method) w
        = (case multipletests p_values significance_level fdr_method of
             Inl e \<Rightarrow> (Inl e, w')
           | Inr reject \<Rightarrow> (Inr (Map.empty (nodes graph [\<mapsto>] reject)), w'))"
    using assms
    by (simp add: check_significant_mechanism_change_def bind_eff_def unit_eff_def
        lift_result_def split: sum.splits)
  have per_node: "(Map.empty (nodes graph [\<mapsto>] map (\<lambda>p. p \<le> significance_level) p_values))
               (nodes graph ! i) = Some (p_values ! i \<le> significance_level)"
    if "distinct (nodes graph)" "i < length (nodes graph)" for i
    using that len by (simp add: map_upds_nth)
  have per_node_corrected:
    "(Map.empty (nodes graph [\<mapsto>] reject)) (nodes graph ! i) = Some (reject ! i)"
    if "distinct (nodes graph)" "length reject = length (nodes graph)"
      "i < length (nodes graph)" for reject i
    using that by (simp add: map_upds_nth)
  from len each uncorrected corrected per_node per_node_corrected show ?thesis
    by blast
qed

theorem flags_follow_threshold_or_correction_witness:
  "check_significant_mechanism_change example_multipletests example_choice example_column_test
       example_conditional_column_test example_graph example_old_data example_new_data
       (1 / 2) None 0
     = (Inr (Map.empty ([1, 2] [\<mapsto>] [False, True])), 6)
   \<and> check_significant_mechanism_change example_multipletests example_choice
       example_column_test example_conditional_column_test example_graph example_old_data
       example_new_data (1 / 2) (Some ''bonferroni'') 0
     = (Inr (Map.empty ([1, 2] [\<mapsto>] [False, True])), 6)"
proof -
  have collected: "all_p_values example_choice example_column_test
      example_conditional_column_test example_graph example_old_data example_new_data
      (nodes example_graph) 0 = (Inr [1, 1 / 7], 6)"
    by code_simp
  have nodes: "nodes example_graph = [1, 2]" by (simp add: example_graph_def)
  from flags_follow_threshold_or_correction [OF collected, of example_multipletests "1 / 2"
      "''bonferroni''"]
  show ?thesis
    by (simp add: nodes example_multipletests_def)
qed

text \<open>
  Claim C9, as the code has it. On a graph without nodes the screener returns the empty
  mapping when no FDR-control method is set; when a method is given it applies the
  correction to the empty p-value vector and returns the empty mapping if the correction
  returns, and the exception of the correction if it raises. An exception raised by the
  pluggable independence test (for a root node) or conditional independence test (for a
  node with parents) leaves the screener as it was raised, together with the state the
  test left: nothing is retried or suppressed, whatever the FDR-control setting.
\<close>

theorem screener_on_empty_graph_and_failing_tests:
  "(nodes graph = [] \<longrightarrow>
      check_significant_mechanism_change multipletests choice it cit graph old_data new_data
          significance_level None w
        = (Inr Map.empty, w)
    \<and> check_significant_mechanism_change multipletests choice it cit graph old_data new_data
          significance_level (Some fdr_method) w
        = (case multipletests [] significance_level fdr_method of
             Inl e \<Rightarrow> (Inl e, w)
           | Inr reject \<Rightarrow> (Inr Map.empty, w)))
   \<and> (nodes graph = processed @ node # rest
      \<and> all_p_values choice it cit graph old_data new_data processed w = (Inr p_values, wp)
      \<and> is_root_node graph node
      \<and> column old_data node = Inr target_original_data
      \<and> column new_data node = Inr target_new_data
      \<and> n = min (length target_original_data) (length target_new_data)
      \<and> choice (length target_original_data) (int n) wp = (Inr original_indices, wa)
      \<and> choice (length target_new_data) (int n) wa = (Inr new_indices, wb)
      \<and> list_all (\<lambda>i. i < length target_original_data) original_indices
      \<and> list_all (\<lambda>i. i < length target_new_data) new_indices
      \<and> it (map (\<lambda>i. target_original_data ! i) original_indices
             @ map (\<lambda>i. target_new_data ! i) new_indices) (data_set_indices n) wb
          = (Inl e, wc)
      \<longrightarrow> check_significant_mechanism_change multipletests choice it cit graph old_data
            new_data significance_level fdr_control_method w = (Inl e, wc))
   \<and> (nodes graph = processed @ node # rest
      \<and> all_p_values choice it cit graph old_data new_data processed w = (Inr p_values, wp)
      \<and> \<not> is_root_node graph node
      \<and> select_columns old_data (get_ordered_predecessors graph node) = Inr parents_org_data
      \<and> select_columns new_data (get_ordered_predecessors graph node) = Inr parents_new_data
      \<and> column old_data node = Inr target_original_data
      \<and> column new_data node = Inr target_new_data
      \<and> n = min (length target_original_data) (length target_new_data)
      \<and> choice (length target_original_data) (int n) wp = (Inr original_indices, wa)
      \<and> choice (length target_new_data) (int n) wa = (Inr new_indices, wb)
      \<and> list_all (\<lambda>i. i < length target_original_data) original_indices
      \<and> list_all (\<lambda>i. i < length target_new_data) new_indices
      \<and> list_all (\<lambda>i. i < length parents_org_data) original_indices
      \<and> list_all (\<lambda>i. i < length parents_new_data) new_indices
      \<and> cit (map (\<lambda>i. target_original_data ! i) original_indices
              @ map (\<lambda>i. target_new_data ! i) new_indices) (data_set_indices n)
             (map (\<lambda>i. parents_org_data ! i) original_indices
              @ map (\<lambda>i. parents_new_data ! i) new_indices) wb
          = (Inl e, wc)
      \<longrightarrow> check_significant_mechanism_change multipletests choice it cit graph old_data
            new_data significance_level fdr_control_method w = (Inl e, wc))"
proof (intro conjI impI)
  assume "nodes graph = []"
  then show "check_significant_mechanism_change multipletests choice it cit graph old_data
      new_data significance_level None w = (Inr Map.empty, w)"
    by (simp add: check_significant_mechanism_change_def bind_eff_def unit_eff_def)
next
  assume "nodes graph = []"
  then show "check_significant_mechanism_change multipletests choice it cit graph old_data
          new_data significance_level (Some fdr_method) w
        = (case multipletests [] significance_level fdr_method of
             Inl e \<Rightarrow> (Inl e, w)
           | Inr reject \<Rightarrow> (Inr Map.empty, w))"
    by (simp add: check_significant_mechanism_change_def bind_eff_def unit_eff_def
        lift_result_def split: sum.splits)
next
  assume a: "nodes graph = processed @ node # rest
      \<and> all_p_values choice it cit graph old_data new_data processed w = (Inr p_values, wp)
      \<and> is_root_node graph node
      \<and> column old_data node = Inr target_original_data
      \<and> column new_data node = Inr target_new_data
      \<and> n = min (length target_original_data) (length target_new_data)
      \<and> choice (length target_original_data) (int n) wp = (Inr original_indices, wa)
      \<and> choice (length target_new_data) (int n) wa = (Inr new_indices, wb)
      \<and> list_all (\<lambda>i. i < length target_original_data) original_indices
      \<and> list_all (\<lambda>i. i < length target_new_data) new_indices
      \<and> it (map (\<lambda>i. target_original_data ! i) original_indices
             @ map (\<lambda>i. target_new_data ! i) new_indices) (data_set_indices n) wb
          = (Inl e, wc)"
  have "mechanism_change_test choice it cit target_original_data target_new_data None None wp
       = it (map (\<lambda>i. target_original_data ! i) original_indices
             @ map (\<lambda>i. target_new_data ! i) new_indices) (data_set_indices n) wb"
    using a by (intro mechanism_change_test_root) auto
  moreover from a have "it (map (\<lambda>i. target_original_data ! i) original_indices
             @ map (\<lambda>i. target_new_data ! i) new_indices) (data_set_indices n) wb
          = (Inl e, wc)"
    by blast
  moreover from a have "node_p_value choice it cit graph old_data new_data node wp
      = mechanism_change_test choice it cit target_original_data target_new_data None None wp"
    by (intro node_p_value_root) auto
  ultimately have "node_p_value choice it cit graph old_data new_data node wp = (Inl e, wc)"
    by simp
  with a have "all_p_values choice it cit graph old_data new_data (nodes graph) w = (Inl e, wc)"
    by (simp add: all_p_values_raises)
  then show "check_significant_mechanism_change multipletests choice it cit graph old_data
            new_data significance_level fdr_control_method w = (Inl e, wc)"
    by (rule check_significant_mechanism_change_raises)
next
  assume a: "nodes graph = processed @ node # rest
      \<and> all_p_values choice it cit graph old_data new_data processed w = (Inr p_values, wp)
      \<and> \<not> is_root_node graph node
      \<and> select_columns old_data (get_ordered_predecessors graph node) = Inr parents_org_data
      \<and> select_columns new_data (get_ordered_predecessors graph node) = Inr parents_new_data
      \<and> column old_data node = Inr target_original_data
      \<and> column new_data node = Inr target_new_data
      \<and> n = min (length target_original_data) (length target_new_data)
      \<and> choice (length target_original_data) (int n) wp = (Inr original_indices, wa)
      \<and> choice (length target_new_data) (int n) wa = (Inr new_indices, wb)
      \<and> list_all (\<lambda>i. i < length target_original_data) original_indices
      \<and> list_all (\<lambda>i. i < length target_new_data) new_indices
      \<and> list_all (\<lambda>i. i < length parents_org_data) original_indices
      \<and> list_all (\<lambda>i. i < length parents_new_data) new_indices
      \<and> cit (map (\<lambda>i. target_original_data ! i) original_indices
              @ map (\<lambda>i. target_new_data ! i) new_indices) (data_set_indices n)
             (map (\<lambda>i. parents_org_data ! i) original_indices
              @ map (\<lambda>i. parents_new_data ! i) new_indices) wb
          = (Inl e, wc)"
  have "mechanism_change_test choice it cit target_original_data target_new_data
         (Some parents_org_data) (Some parents_new_data) wp
       = cit (map (\<lambda>i. target_original_data ! i) original_indices
              @ map (\<lambda>i. target_new_data ! i) new_indices) (data_set_indices n)
             (map (\<lambda>i. parents_org_data ! i) original_indices
              @ map (\<lambda>i. parents_new_data ! i) new_indices) wb"
    using a by (intro mechanism_change_test_nonroot) auto
  moreover from a have "cit (map (\<lambda>i. target_original_data ! i) original_indices
              @ map (\<lambda>i. target_new_data ! i) new_indices) (data_set_indices n)
             (map (\<lambda>i. parents_org_data ! i) original_indices
              @ map (\<lambda>i. parents_new_data ! i) new_indices) wb
          = (Inl e, wc)"
    by blast
  moreover from a have "node_p_value choice it cit graph old_data new_data node wp
      = mechanism_change_test choice it cit target_original_data target_new_data
         (Some parents_org_data) (Some parents_new_data) wp"
    by (intro node_p_value_nonroot) auto
  ultimately have "node_p_value choice it cit graph old_data new_data node wp = (Inl e, wc)"
    by simp
  with a have "all_p_values choice it cit graph old_data new_data (nodes graph) w = (Inl e, wc)"
    by (simp add: all_p_values_raises)
  then show "check_significant_mechanism_change multipletests choice it cit graph old_data
            new_data significance_level fdr_control_method w = (Inl e, wc)"
    by (rule check_significant_mechanism_change_raises)
qed

theorem screener_on_empty_graph_and_failing_tests_witness:
  "check_significant_mechanism_change example_multipletests example_choice example_column_test
       example_conditional_column_test empty_graph example_old_data example_new_data
       (1 / 20) None 0
     = (Inr Map.empty, 0)
   \<and> check_significant_mechanism_change example_multipletests example_choice
       example_column_test example_conditional_column_test empty_graph example_old_data
       example_new_data (1 / 20) (Some ''fdr_bh'') 0
     = (Inl ZeroDivisionError, 0)
   \<and> check_significant_mechanism_change example_multipletests example_choice
       example_strict_test example_strict_conditional_test example_graph single_row_old_data
       single_row_new_data (1 / 20) (Some ''fdr_bh'') 0
     = (Inl (ValueError ''Too few samples''), 3)
   \<and> check_significant_mechanism_change example_multipletests example_choice
       example_column_test example_strict_conditional_test example_graph single_row_old_data
       single_row_new_data (1 / 20) None 0
     = (Inl (ValueError ''Too few samples''), 6)"
proof -
  have no_nodes: "nodes empty_graph = []" by (simp add: empty_graph_def)
  have correction: "example_multipletests [] (1 / 20) ''fdr_bh'' = Inl ZeroDivisionError"
    by (simp add: example_multipletests_def)
  note on_empty = screener_on_empty_graph_and_failing_tests
    [where graph = empty_graph and multipletests = example_multipletests
      and choice = example_choice and it = example_column_test
      and cit = example_conditional_column_test and old_data = example_old_data
      and new_data = example_new_data and significance_level = "1 / 20"
      and fdr_method = "''fdr_bh''" and w = 0, THEN conjunct1, THEN mp, OF no_nodes]
  have root: "check_significant_mechanism_change example_multipletests example_choice
       example_strict_test example_strict_conditional_test example_graph single_row_old_data
       single_row_new_data (1 / 20) (Some ''fdr_bh'') 0
     = (Inl (ValueError ''Too few samples''), 3)"
    by (rule screener_on_empty_graph_and_failing_tests
      [where graph = example_graph and processed = "[]" and node = 1 and rest = "[2]"
        and p_values = "[]" and w = 0 and wp = 0 and wa = 1 and wb = 2 and wc = 3
        and target_original_data = "[Some 1]" and target_new_data = "[Some 1]" and n = 1
        and original_indices = "[0]" and new_indices = "[0]"
        and e = "ValueError ''Too few samples''" and choice = example_choice
        and it = example_strict_test and old_data = single_row_old_data
        and new_data = single_row_new_data,
        THEN conjunct2, THEN conjunct1, THEN mp])
      (intro conjI; code_simp)
  have nonroot: "check_significant_mechanism_change example_multipletests example_choice
       example_column_test example_strict_conditional_test example_graph single_row_old_data
       single_row_new_data (1 / 20) None 0
     = (Inl (ValueError ''Too few samples''), 6)"
    by (rule screener_on_empty_graph_and_failing_tests
      [where graph = example_graph and processed = "[1]" and node = 2 and rest = "[]"
        and p_values = "[1]" and w = 0 and wp = 3 and wa = 4 and wb = 5 and wc = 6
        and target_original_data = "[Some 2]" and target_new_data = "[Some 5]" and n = 1
        and parents_org_data = "[[Some 1]]" and parents_new_data = "[[Some 1]]"
        and original_indices = "[0]" and new_indices = "[0]"
        and e = "ValueError ''Too few samples''" and choice = example_choice
        and it = example_column_test and cit = example_strict_conditional_test
        and old_data = single_row_old_data and new_data = single_row_new_data,
        THEN conjunct2, THEN conjunct2, THEN mp])
      (intro conjI; code_simp)
  from on_empty root nonroot show ?thesis
    by (simp add: correction)
qed

theorem empty_graph_with_correction_counterexample:
  "nodes empty_graph = []
   \<and> check_significant_mechanism_change example_multipletests example_choice
       example_column_test example_conditional_column_test empty_graph example_old_data
       example_new_data (1 / 20) (Some ''fdr_bh'') 0
     = (Inl ZeroDivisionError, 0)
   \<and> check_significant_mechanism_change example_multipletests example_choice
       example_column_test example_conditional_column_test empty_graph example_old_data
       example_new_data (1 / 20) (Some ''fdr_bh'') 0
     \<noteq> (Inr Map.empty, 0)"
  by (simp add: check_significant_mechanism_change_def empty_graph_def bind_eff_def
      unit_eff_def lift_result_def example_multipletests_def)

subsection \<open>The local distribution-change scorer\<close>



lemma fle_below_zero:
  assumes "fle (Finite 0) pct" "x \<le> 0"
  shows "fle (Finite x) pct"
  using assms by (cases pct) auto

lemma fle_NegInf:
  assumes "fle (Finite 0) pct"
  shows "fle NegInf pct"
  using assms by (cases pct) auto


lemma example_divergence_nonnegative:
  "example_divergence a b u = (Inr d, u') \<Longrightarrow> fle (Finite 0) d"
  by (auto simp: example_divergence_def unit_eff_def split: if_splits)



text \<open>
  Claim C10, as the code has it. A first contribution of \<open>inf\<close> is nonnegative and not
  zero, but then the running sum is \<open>inf\<close> from the first row on, \<open>inf / inf\<close> is NaN
  and no comparison with NaN holds, so the stopping test is never met and the whole
  pool is processed. The first contribution therefore has to be finite. Let the
  evaluation pool have at least two rows, the difference function return only
  nonnegative values (\<open>inf\<close> included, NaN excluded), the early-stop percentage be
  nonnegative, and the first row contribute a finite nonzero amount \<open>d1\<close>. Then the
  loop ends with the second row whatever follows it in the pool: it either passes on
  the exception the second row raised or stops early with the sum of the first two
  contributions and \<open>run = 2\<close>, and the scorer returns their mean.
\<close>

theorem nonnegative_difference_stops_after_two_rows:
  assumes nonneg: "\<forall>a b u d u'. difference_estimation_func a b u = (Inr d, u')
                     \<longrightarrow> fle (Finite 0) d"
    and pct: "fle (Finite 0) early_stopping_percentage"
    and prep: "prepare_evaluation choice clone fit parent_original_data parent_new_data
                 target_new_data causal_model_original max_num_evaluation_samples w0
               = (Inr (causal_model_new, r1 # r2 # rest), w)"
    and first: "row_difference draw_samples difference_estimation_func causal_model_original
                  causal_model_new num_joint_samples r1 w = (Inr (Finite d1), w1)"
    and nonzero: "d1 \<noteq> 0"
  shows "score_loop (row_difference draw_samples difference_estimation_func
             causal_model_original causal_model_new num_joint_samples)
           early_stopping_percentage (r1 # r2 # rest) (Finite 0) 0 w
         = (case row_difference draw_samples difference_estimation_func causal_model_original
                   causal_model_new num_joint_samples r2 w1 of
              (Inl e, w2) \<Rightarrow> (Inl e, w2)
            | (Inr d2, w2) \<Rightarrow> (Inr (fadd (Finite d1) d2, 2), w2))
       \<and> estimate_distribution_change_score choice clone fit draw_samples
             parent_original_data parent_new_data target_new_data causal_model_original
             difference_estimation_func max_num_evaluation_samples num_joint_samples
             early_stopping_percentage w0
         = (case row_difference draw_samples difference_estimation_func causal_model_original
                   causal_model_new num_joint_samples r2 w1 of
              (Inl e, w2) \<Rightarrow> (Inl e, w2)
            | (Inr d2, w2) \<Rightarrow> (Inr (fdiv (fadd (Finite d1) d2) (Finite 2)), w2))"
proof -
  let ?c = "row_difference draw_samples difference_estimation_func causal_model_original
                  causal_model_new num_joint_samples"
  have c_nonneg: "fle (Finite 0) d" if "?c r u = (Inr d, u')" for r u d u'
  proof -
    from that obtain a b ub where "difference_estimation_func a b ub = (Inr d, u')"
      unfolding row_difference_def Let_def by (blast dest: bind_eff_Inr)
    with nonneg show ?thesis by blast
  qed
  from c_nonneg[OF first] nonzero have d1: "0 < d1" by simp
  have loop: "score_loop ?c early_stopping_percentage (r1 # r2 # rest) (Finite 0) 0 w
         = (case ?c r2 w1 of
              (Inl e, w2) \<Rightarrow> (Inl e, w2)
            | (Inr d2, w2) \<Rightarrow> (Inr (fadd (Finite d1) d2, 2), w2))"
  proof (cases "?c r2 w1")
    case (Pair x w2)
    show ?thesis
    proof (cases x)
      case (Inl e)
      with Pair first show ?thesis by (simp add: Let_def)
    next
      case (Inr d2)
      with Pair c_nonneg have d2: "fle (Finite 0) d2" by blast
      have stop: "fle (fsub (Finite 1) (fdiv (fadd (Finite d1) d2) (Finite d1)))
                    early_stopping_percentage"
      proof (cases d2)
        case (Finite b)
        with d2 have "0 \<le> b" by simp
        with d1 have "1 - (d1 + b) / d1 \<le> 0" by (simp add: field_simps)
        from fle_below_zero [OF pct this] Finite d1 show ?thesis
          by (simp add: fsub_def)
      next
        case PosInf
        with d1 fle_NegInf [OF pct] show ?thesis by (simp add: fsub_def)
      next
        case NegInf
        with d2 show ?thesis by simp
      next
        case NaN
        with d2 show ?thesis by simp
      qed
      with Pair Inr first d1 show ?thesis by (simp add: Let_def)
    qed
  qed
  have "estimate_distribution_change_score choice clone fit draw_samples
             parent_original_data parent_new_data target_new_data causal_model_original
             difference_estimation_func max_num_evaluation_samples num_joint_samples
             early_stopping_percentage w0
         = (case ?c r2 w1 of
              (Inl e, w2) \<Rightarrow> (Inl e, w2)
            | (Inr d2, w2) \<Rightarrow> (Inr (fdiv (fadd (Finite d1) d2) (Finite 2)), w2))"
    unfolding estimate_distribution_change_score_def
    by (cases "?c r2 w1"; cases "fst (?c r2 w1)")
       (simp_all add: bind_eff_def prep loop unit_eff_def raise_def del: score_loop.simps)
  with loop show ?thesis by blast
qed

theorem nonnegative_difference_stops_after_two_rows_witness:
  "score_loop (row_difference example_draw_samples example_difference 0 1 2)
       (Finite (1 / 100)) [1, 2, 3] (Finite 0) 0 1 = (Inr (Finite 4, 2), 5)
   \<and> estimate_distribution_change_score example_choice example_clone example_fit
       example_draw_samples [1] [2, 3] [5, 6] 0 example_difference 1000 2
       (Finite (1 / 100)) 0
     = (Inr (Finite 2), 5)"
proof -
  have nonneg: "\<forall>a b u d u'. example_difference a b u = (Inr d, u') \<longrightarrow> fle (Finite 0) d"
    by (auto simp: example_difference_def unit_eff_def)
  have pct: "fle (Finite 0) (Finite (1 / 100))" by simp
  have prep: "prepare_evaluation example_choice example_clone example_fit [1] [2, 3] [5, 6]
      (0 :: real) 1000 0 = (Inr (1, [1, 2, 3]), 1)"
    by code_simp
  have first: "row_difference example_draw_samples example_difference 0 1 2 (1 :: real) 1
      = (Inr (Finite 2), 3)"
    by code_simp
  have second: "row_difference example_draw_samples example_difference 0 1 2 (2 :: real) 3
      = (Inr (Finite 2), 5)"
    by code_simp
  have nonzero: "(2 :: real) \<noteq> 0" by simp
  show ?thesis
    using nonnegative_difference_stops_after_two_rows [OF nonneg pct prep first nonzero]
    by (simp add: second)
qed

text \<open>
  The difference function \<open>example_divergence\<close> returns only \<open>0\<close> and \<open>inf\<close>
  (\<open>example_divergence_nonnegative\<close>). On a pool
  of three rows all three contributions are \<open>inf\<close>, the early-stop percentage is
  nonnegative, the test fails after the second row, and the loop ends with \<open>run = 3\<close>.
\<close>

theorem infinite_first_contribution_counterexample:
  "prepare_evaluation example_choice example_clone example_fit [1] [2, 3] [5, 6]
       (0 :: real) 1000 0 = (Inr (1, [1, 2, 3]), 1)
   \<and> contributions (row_difference example_draw_samples example_divergence 0 1 2)
       [1, 2, 3] 1 = [PosInf, PosInf, PosInf]
   \<and> list_all (fle (Finite 0)) [PosInf, PosInf, PosInf]
   \<and> PosInf \<noteq> Finite 0
   \<and> fle (Finite 0) (Finite (1 / 100))
   \<and> \<not> early_stop_after (Finite (1 / 100)) [PosInf, PosInf, PosInf] 2
   \<and> score_loop (row_difference example_draw_samples example_divergence 0 1 2)
       (Finite (1 / 100)) [1, 2, 3] (Finite 0) 0 1 = (Inr (PosInf, 3), 7)
   \<and> estimate_distribution_change_score example_choice example_clone example_fit
       example_draw_samples [1] [2, 3] [5, 6] 0 example_divergence 1000 2
       (Finite (1 / 100)) 0 = (Inr PosInf, 7)"
  by (intro conjI; code_simp)

subsection \<open>Distribution-change scores of all nodes\<close>

lemma score_nodes_results:
  "score_nodes score ns results0 w = (Inr results, w') \<Longrightarrow>
   dom results = dom results0 \<union> set ns
   \<and> (\<forall>node. node \<notin> set ns \<longrightarrow> results node = results0 node)
   \<and> (distinct ns \<longrightarrow>
        (\<forall>node \<in> set ns. \<exists>wi wi'. score node wi = (Inr (the (results node)), wi')))"
proof (induction ns arbitrary: results0 w)
  case Nil
  then show ?case by (simp add: unit_eff_def)
next
  case (Cons n ns)
  from Cons.prems obtain v w1 where step:
    "score n w = (Inr v, w1)"
    "score_nodes score ns (results0(n \<mapsto> v)) w1 = (Inr results, w')"
    by (auto dest!: bind_eff_Inr)
  note IH = Cons.IH [OF step(2)]
  have dom: "dom results = dom results0 \<union> set (n # ns)" using IH by auto
  have outside: "\<forall>node. node \<notin> set (n # ns) \<longrightarrow> results node = results0 node"
    using IH by auto
  have each: "\<forall>node \<in> set (n # ns). \<exists>wi wi'. score node wi = (Inr (the (results node)), wi')"
    if d: "distinct (n # ns)"
  proof
    fix node assume "node \<in> set (n # ns)"
    then consider "node = n" | "node \<in> set ns" by auto
    then show "\<exists>wi wi'. score node wi = (Inr (the (results node)), wi')"
    proof cases
      case 1
      with d IH have "results n = Some v" by auto
      with 1 step(1) show ?thesis by auto
    next
      case 2
      with d IH show ?thesis by auto
    qed
  qed
  from dom outside each show ?case by blast
qed

lemma node_score_unchanged:
  "mechanism_changed_for_node node = Some False \<Longrightarrow>
   node_score choice clone fit draw_samples difference_estimation_func graph original_data
     new_data max_num_evaluation_samples num_joint_samples early_stopping_percentage
     mechanism_changed_for_node node w = (Inr (Finite 0), w)"
  by (simp add: node_score_def unit_eff_def)

text \<open>
  Claim C7. A node whose flag is false gets the score 0 and the state is left as it was,
  whatever the difference function and the mechanisms are: neither the difference
  function nor the conditional scorer ran. A flagged root node gets what the difference
  function returns on the node's column of the original data and its column of the new
  data. A flagged node with parents gets what the conditional scorer returns on the
  parent columns of both data sets, the node's new column and the node's mechanism. The
  mapping \<^verbatim>\<open>estimate_distribution_change_scores\<close> returns has exactly the nodes of the
  graph as keys, and the entry of each node is the value this dispatch returned for it
  under the flags of the screener.
\<close>

theorem scores_by_flag_and_root:
  "(mechanism_changed_for_node node = Some False \<longrightarrow>
      node_score choice clone fit draw_samples difference_estimation_func graph original_data
        new_data max_num_evaluation_samples num_joint_samples early_stopping_percentage
        mechanism_changed_for_node node w = (Inr (Finite 0), w))
   \<and> (mechanism_changed_for_node node = Some True \<and> is_root_node graph node
       \<and> column original_data node = Inr original_samples
       \<and> column new_data node = Inr new_samples \<longrightarrow>
      node_score choice clone fit draw_samples difference_estimation_func graph original_data
        new_data max_num_evaluation_samples num_joint_samples early_stopping_percentage
        mechanism_changed_for_node node w
      = difference_estimation_func original_samples new_samples w)
   \<and> (mechanism_changed_for_node node = Some True \<and> \<not> is_root_node graph node
       \<and> select_columns original_data (get_ordered_predecessors graph node)
           = Inr parent_original_data
       \<and> select_columns new_data (get_ordered_predecessors graph node) = Inr parent_new_data
       \<and> column new_data node = Inr target_new_data
       \<and> causal_mechanism graph node = Some causal_model_original \<longrightarrow>
      node_score choice clone fit draw_samples difference_estimation_func graph original_data
        new_data max_num_evaluation_samples num_joint_samples early_stopping_percentage
        mechanism_changed_for_node node w
      = estimate_distribution_change_score choice clone fit draw_samples
          parent_original_data parent_new_data target_new_data causal_model_original
          difference_estimation_func max_num_evaluation_samples num_joint_samples
          early_stopping_percentage w)
   \<and> (estimate_distribution_change_scores validate_causal_dag multipletests choice
         independence_test conditional_independence_test clone fit draw_samples
         graph original_data new_data difference_estimation_func max_num_evaluation_samples
         num_joint_samples early_stopping_percentage significance_level fdr_control_method w0
       = (Inr results, w')
       \<and> distinct (nodes graph) \<longrightarrow>
      (\<exists>flags wf.
         check_significant_mechanism_change multipletests choice independence_test
           conditional_independence_test graph original_data new_data significance_level
           fdr_control_method w0 = (Inr flags, wf)
       \<and> dom results = set (nodes graph)
       \<and> (\<forall>n \<in> set (nodes graph).
            (flags n = Some False \<longrightarrow> results n = Some (Finite 0))
          \<and> (\<exists>wi wi'.
               node_score choice clone fit draw_samples difference_estimation_func graph
                 original_data new_data max_num_evaluation_samples num_joint_samples
                 early_stopping_percentage flags n wi
               = (Inr (the (results n)), wi')))))"
proof (intro conjI impI)
  assume "mechanism_changed_for_node node = Some False"
  then show "node_score choice clone fit draw_samples difference_estimation_func graph
      original_data new_data max_num_evaluation_samples num_joint_samples
      early_stopping_percentage mechanism_changed_for_node node w = (Inr (Finite 0), w)"
    by (rule node_score_unchanged)
next
  assume "mechanism_changed_for_node node = Some True \<and> is_root_node graph node
       \<and> column original_data node = Inr original_samples
       \<and> column new_data node = Inr new_samples"
  then show "node_score choice clone fit draw_samples difference_estimation_func graph
        original_data new_data max_num_evaluation_samples num_joint_samples
        early_stopping_percentage mechanism_changed_for_node node w
      = difference_estimation_func original_samples new_samples w"
    by (simp add: node_score_def bind_eff_def lift_result_def)
next
  assume "mechanism_changed_for_node node = Some True \<and> \<not> is_root_node graph node
       \<and> select_columns original_data (get_ordered_predecessors graph node)
           = Inr parent_original_data
       \<and> select_columns new_data (get_ordered_predecessors graph node) = Inr parent_new_data
       \<and> column new_data node = Inr target_new_data
       \<and> causal_mechanism graph node = Some causal_model_original"
  then show "node_score choice clone fit draw_samples difference_estimation_func graph
        original_data new_data max_num_evaluation_samples num_joint_samples
        early_stopping_percentage mechanism_changed_for_node node w
      = estimate_distribution_change_score choice clone fit draw_samples
          parent_original_data parent_new_data target_new_data causal_model_original
          difference_estimation_func max_num_evaluation_samples num_joint_samples
          early_stopping_percentage w"
    by (simp add: node_score_def bind_eff_def lift_result_def Let_def)
next
  let ?score = "node_score choice clone fit draw_samples difference_estimation_func graph
                 original_data new_data max_num_evaluation_samples num_joint_samples
                 early_stopping_percentage"
  assume a: "estimate_distribution_change_scores validate_causal_dag multipletests choice
         independence_test conditional_independence_test clone fit draw_samples
         graph original_data new_data difference_estimation_func max_num_evaluation_samples
         num_joint_samples early_stopping_percentage significance_level fdr_control_method w0
       = (Inr results, w')
       \<and> distinct (nodes graph)"
  then obtain flags wf where
    flags: "check_significant_mechanism_change multipletests choice independence_test
           conditional_independence_test graph original_data new_data significance_level
           fdr_control_method w0 = (Inr flags, wf)"
    and loop: "score_nodes (?score flags) (nodes graph) Map.empty wf = (Inr results, w')"
    unfolding estimate_distribution_change_scores_def
    by (auto simp: lift_result_def dest!: bind_eff_Inr)
  from score_nodes_results [OF loop] a have
    dom: "dom results = set (nodes graph)"
    and each: "\<forall>n \<in> set (nodes graph). \<exists>wi wi'. ?score flags n wi = (Inr (the (results n)), wi')"
    by auto
  have zero: "results n = Some (Finite 0)" if "n \<in> set (nodes graph)" "flags n = Some False" for n
  proof -
    from each that obtain wi wi' where "?score flags n wi = (Inr (the (results n)), wi')"
      by blast
    moreover from that(2) have "?score flags n wi = (Inr (Finite 0), wi)"
      by (rule node_score_unchanged)
    ultimately have "the (results n) = Finite 0" by simp
    moreover from dom that have "results n \<noteq> None" by auto
    ultimately show ?thesis by auto
  qed
  from flags dom each zero show "\<exists>flags wf.
         check_significant_mechanism_change multipletests choice independence_test
           conditional_independence_test graph original_data new_data significance_level
           fdr_control_method w0 = (Inr flags, wf)
       \<and> dom results = set (nodes graph)
       \<and> (\<forall>n \<in> set (nodes graph).
            (flags n = Some False \<longrightarrow> results n = Some (Finite 0))
          \<and> (\<exists>wi wi'. ?score flags n wi = (Inr (the (results n)), wi')))"
    by blast
qed

theorem scores_by_flag_and_root_witness:
  "node_score example_choice example_clone example_cell_fit example_cell_draw_samples
       example_cell_difference example_graph example_old_data example_new_data 1000 2
       (Finite (1 / 100)) [1 \<mapsto> False, 2 \<mapsto> True] 1 6
     = (Inr (Finite 0), 6)
   \<and> node_score example_choice example_clone example_cell_fit example_cell_draw_samples
       example_cell_difference example_graph example_old_data example_new_data 1000 2
       (Finite (1 / 100)) [1 \<mapsto> True, 2 \<mapsto> True] 1 6
     = example_cell_difference [Some 1, Some 2, Some 3] [Some 1, Some 2] 6
   \<and> node_score example_choice example_clone example_cell_fit example_cell_draw_samples
       example_cell_difference example_graph example_old_data example_new_data 1000 2
       (Finite (1 / 100)) [1 \<mapsto> False, 2 \<mapsto> True] 2 6
     = estimate_distribution_change_score example_choice example_clone example_cell_fit
         example_cell_draw_samples [[Some 1], [Some 2], [Some 3]] [[Some 1], [Some 2]]
         [Some 5, Some 7] 0 example_cell_difference 1000 2 (Finite (1 / 100)) 6
   \<and> (\<exists>flags wf.
         check_significant_mechanism_change example_multipletests example_choice
           example_column_test example_conditional_column_test example_graph
           example_old_data example_new_data (1 / 2) None 0 = (Inr flags, wf)
       \<and> dom [1 \<mapsto> Finite 0, 2 \<mapsto> Finite 2] = set (nodes example_graph)
       \<and> (\<forall>n \<in> set (nodes example_graph).
            (flags n = Some False \<longrightarrow> [1 \<mapsto> Finite 0, 2 \<mapsto> Finite 2] n = Some (Finite 0))
          \<and> (\<exists>wi wi'.
               node_score example_choice example_clone example_cell_fit
                 example_cell_draw_samples example_cell_difference example_graph
                 example_old_data example_new_data 1000 2 (Finite (1 / 100)) flags n wi
               = (Inr (the ([1 \<mapsto> Finite 0, 2 \<mapsto> Finite 2] n)), wi'))))"
proof -
  define flags where "flags = (Map.empty ([1 :: nat, 2] [\<mapsto>] [False, True]))"
  have nodes: "nodes example_graph = [1, 2]" by (simp add: example_graph_def)
  have valid: "example_validate_causal_dag example_graph = Inr ()" by code_simp
  have collected: "all_p_values example_choice example_column_test
      example_conditional_column_test example_graph example_old_data example_new_data
      [1, 2] 0 = (Inr [1, 1 / 7], 6)"
    by code_simp
  have checked: "check_significant_mechanism_change example_multipletests example_choice
      example_column_test example_conditional_column_test example_graph example_old_data
      example_new_data (1 / 2) None 0 = (Inr flags, 6)"
    unfolding check_significant_mechanism_change_def nodes bind_eff_def collected
      unit_eff_def prod.case sum.case option.case flags_def
    by simp
  have first: "node_score example_choice example_clone example_cell_fit
      example_cell_draw_samples example_cell_difference example_graph example_old_data
      example_new_data 1000 2 (Finite (1 / 100)) flags 1 6 = (Inr (Finite 0), 6)"
    unfolding flags_def by code_simp
  have second: "node_score example_choice example_clone example_cell_fit
      example_cell_draw_samples example_cell_difference example_graph example_old_data
      example_new_data 1000 2 (Finite (1 / 100)) flags 2 6 = (Inr (Finite 2), 11)"
    unfolding flags_def by code_simp
  have run: "estimate_distribution_change_scores example_validate_causal_dag
      example_multipletests example_choice example_column_test
      example_conditional_column_test example_clone example_cell_fit
      example_cell_draw_samples example_graph example_old_data example_new_data
      example_cell_difference 1000 2 (Finite (1 / 100)) (1 / 2) None 0
      = (Inr [1 \<mapsto> Finite 0, 2 \<mapsto> Finite 2], 11)"
    unfolding estimate_distribution_change_scores_def nodes score_nodes.simps bind_eff_def
      lift_result_def valid checked first second unit_eff_def prod.case sum.case
    by (rule refl)
  have distinct: "distinct (nodes example_graph)" by (simp add: nodes)
  have unflagged: "node_score example_choice example_clone example_cell_fit
       example_cell_draw_samples example_cell_difference example_graph example_old_data
       example_new_data 1000 2 (Finite (1 / 100)) [1 \<mapsto> False, 2 \<mapsto> True] 1 6
     = (Inr (Finite 0), 6)"
    by (rule scores_by_flag_and_root [THEN conjunct1, THEN mp]) simp
  have root: "node_score example_choice example_clone example_cell_fit
       example_cell_draw_samples example_cell_difference example_graph example_old_data
       example_new_data 1000 2 (Finite (1 / 100)) [1 \<mapsto> True, 2 \<mapsto> True] 1 6
     = example_cell_difference [Some 1, Some 2, Some 3] [Some 1, Some 2] 6"
    by (rule scores_by_flag_and_root [THEN conjunct2, THEN conjunct1, THEN mp])
       (intro conjI; code_simp)
  have nonroot: "node_score example_choice example_clone example_cell_fit
       example_cell_draw_samples example_cell_difference example_graph example_old_data
       example_new_data 1000 2 (Finite (1 / 100)) [1 \<mapsto> False, 2 \<mapsto> True] 2 6
     = estimate_distribution_change_score example_choice example_clone example_cell_fit
         example_cell_draw_samples [[Some 1], [Some 2], [Some 3]] [[Some 1], [Some 2]]
         [Some 5, Some 7] 0 example_cell_difference 1000 2 (Finite (1 / 100)) 6"
    by (rule scores_by_flag_and_root [THEN conjunct2, THEN conjunct2, THEN conjunct1, THEN mp])
       (intro conjI; code_simp)
  note whole = scores_by_flag_and_root [THEN conjunct2, THEN conjunct2, THEN conjunct2,
      THEN mp, OF conjI [OF run distinct]]
  from unflagged root nonroot whole show ?thesis by blast
qed

subsection \<open>The conditional refit\<close>

lemma on_ext_frame:
  "on_ext m w = (r, w') \<Longrightarrow>
   heap w' = heap w \<and> used w' = used w \<and> fit_calls w' = fit_calls w"
  by (auto simp: on_ext_def split: prod.splits)

lemma fit_causal_model_of_target_calls:
  "fit_causal_model_of_target fit causal_model node training_data w = (r, w') \<Longrightarrow>
   fit_calls w' = fit_calls w @ [(causal_model, node, training_data)]
   \<and> heap w' = heap w \<and> used w' = used w"
  by (auto simp: fit_causal_model_of_target_def dest!: on_ext_frame)

lemma refit_nodes_calls:
  "refit_nodes fit flags causal_model_old causal_model_new old_data new_data joint_data ns w
     = (Inr u, w') \<Longrightarrow>
   fit_calls w' = fit_calls w @ concat (map (\<lambda>node.
       [(causal_model_old, node, if flags node = Some True then old_data else joint_data),
        (causal_model_new, node, if flags node = Some True then new_data else joint_data)]) ns)
   \<and> heap w' = heap w \<and> used w' = used w
   \<and> (\<forall>node \<in> set ns. flags node \<noteq> None)"
proof (induction ns arbitrary: w)
  case Nil
  then show ?case by (simp add: unit_eff_def)
next
  case (Cons node rest)
  from Cons.prems obtain changed where changed: "flags node = Some changed"
    by (cases "flags node") (auto simp: raise_def)
  let ?a = "if changed then old_data else joint_data"
  let ?b = "if changed then new_data else joint_data"
  from Cons.prems changed obtain w1 w2 where
    first: "fit_causal_model_of_target fit causal_model_old node ?a w = (Inr (), w1)"
    and second: "fit_causal_model_of_target fit causal_model_new node ?b w1 = (Inr (), w2)"
    and loop: "refit_nodes fit flags causal_model_old causal_model_new old_data new_data
                 joint_data rest w2 = (Inr u, w')"
    by (auto dest!: bind_eff_Inr split: if_splits)
  from fit_causal_model_of_target_calls [OF first]
    fit_causal_model_of_target_calls [OF second] Cons.IH [OF loop] changed
  show ?case by auto
qed

lemma fitted_on_pairs:
  assumes "distinct ns" "causal_model_old \<noteq> causal_model_new"
  shows "fitted_on (concat (map (\<lambda>node.
           [(causal_model_old, node, a node), (causal_model_new, node, b node)]) ns))
           causal_model_old node = (if node \<in> set ns then [a node] else [])
       \<and> fitted_on (concat (map (\<lambda>node.
           [(causal_model_old, node, a node), (causal_model_new, node, b node)]) ns))
           causal_model_new node = (if node \<in> set ns then [b node] else [])"
  using assms by (induction ns) (auto simp: fitted_on_def)

text \<open>
  Claim C2. Let the conditional refit return the flags \<open>flags\<close>. The pooled data set
  has the rows of the old data followed by the rows of the new data. Every node of the
  new model's graph has a flag, and the fit calls the refit made are, node by node in
  the order of that graph: for a node flagged as changed, the old model on the old data
  and then the new model on the new data; for any other node, the old model and then
  the new model on the pooled data set. Hence, for two distinct models and a graph
  without repeated nodes, the old model's mechanism of a changed node was fitted on the
  old data and on nothing else and the new model's on the new data and on nothing else,
  and both models' mechanisms of an unchanged node were fitted on the pooled data set
  and on nothing else.
\<close>

theorem refit_on_own_or_pooled_data:
  assumes "fit_accounting_for_mechanism_change multipletests choice independence_test
             conditional_independence_test fit causal_model_old causal_model_new old_data
             new_data significance_level fdr_control_method w = (Inr flags, w')"
  shows "rows (pd_concat old_data new_data) = rows old_data @ rows new_data
    \<and> (\<forall>node \<in> set (nodes (graph_of w causal_model_new)). flags node \<noteq> None)
    \<and> fit_calls w' = fit_calls w @ concat (map (\<lambda>node.
         if flags node = Some True
         then [(causal_model_old, node, old_data), (causal_model_new, node, new_data)]
         else [(causal_model_old, node, pd_concat old_data new_data),
               (causal_model_new, node, pd_concat old_data new_data)])
         (nodes (graph_of w causal_model_new)))
    \<and> (causal_model_old \<noteq> causal_model_new \<and> distinct (nodes (graph_of w causal_model_new))
        \<longrightarrow> (\<forall>node \<in> set (nodes (graph_of w causal_model_new)).
          (flags node = Some True \<longrightarrow>
             fitted_on (drop (length (fit_calls w)) (fit_calls w')) causal_model_old node
               = [old_data]
           \<and> fitted_on (drop (length (fit_calls w)) (fit_calls w')) causal_model_new node
               = [new_data])
        \<and> (flags node = Some False \<longrightarrow>
             fitted_on (drop (length (fit_calls w)) (fit_calls w')) causal_model_old node
               = [pd_concat old_data new_data]
           \<and> fitted_on (drop (length (fit_calls w)) (fit_calls w')) causal_model_new node
               = [pd_concat old_data new_data])))"
proof -
  let ?joint = "pd_concat old_data new_data"
  let ?ns = "nodes (graph_of w causal_model_new)"
  let ?a = "\<lambda>node. if flags node = Some True then old_data else ?joint"
  let ?b = "\<lambda>node. if flags node = Some True then new_data else ?joint"
  let ?calls = "concat (map (\<lambda>node.
       [(causal_model_old, node, ?a node), (causal_model_new, node, ?b node)]) ?ns)"
  from assms obtain w1 u where
    screened: "on_ext (check_significant_mechanism_change multipletests choice
        independence_test conditional_independence_test (graph_of w causal_model_old)
        old_data new_data significance_level fdr_control_method) w = (Inr flags, w1)"
    and loop: "refit_nodes fit flags causal_model_old causal_model_new old_data new_data
        ?joint (nodes (graph_of w1 causal_model_new)) w1 = (Inr u, w')"
    unfolding fit_accounting_for_mechanism_change_def Let_def
    by (auto simp: unit_eff_def dest!: bind_eff_Inr)
  from on_ext_frame [OF screened] have same: "heap w1 = heap w" "fit_calls w1 = fit_calls w"
    by auto
  then have graph: "graph_of w1 causal_model_new = graph_of w causal_model_new"
    by (cases causal_model_new) auto
  from refit_nodes_calls [OF loop] same graph have
    calls: "fit_calls w' = fit_calls w @ ?calls"
    and flagged: "\<forall>node \<in> set ?ns. flags node \<noteq> None"
    by auto
  have shape: "(\<lambda>node. if flags node = Some True
         then [(causal_model_old, node, old_data), (causal_model_new, node, new_data)]
         else [(causal_model_old, node, ?joint), (causal_model_new, node, ?joint)])
       = (\<lambda>node. [(causal_model_old, node, ?a node), (causal_model_new, node, ?b node)])"
    by auto
  have pooled: "rows ?joint = rows old_data @ rows new_data"
    by (simp add: pd_concat_def)
  have per_node: "(flags node = Some True \<longrightarrow>
             fitted_on (drop (length (fit_calls w)) (fit_calls w')) causal_model_old node
               = [old_data]
           \<and> fitted_on (drop (length (fit_calls w)) (fit_calls w')) causal_model_new node
               = [new_data])
        \<and> (flags node = Some False \<longrightarrow>
             fitted_on (drop (length (fit_calls w)) (fit_calls w')) causal_model_old node
               = [?joint]
           \<and> fitted_on (drop (length (fit_calls w)) (fit_calls w')) causal_model_new node
               = [?joint])"
    if "causal_model_old \<noteq> causal_model_new" "distinct ?ns" "node \<in> set ?ns" for node
    using fitted_on_pairs [OF that(2,1), of ?a ?b node] that(3) calls by simp
  from pooled flagged calls per_node show ?thesis
    unfolding shape by blast
qed

theorem refit_on_own_or_pooled_data_witness:
  "\<exists>flags w'.
     fit_accounting_for_mechanism_change example_multipletests example_choice
       example_column_test example_conditional_column_test example_fit_target (Graph 0)
       (Graph 1) example_old_data example_new_data (1 / 2) None example_world
     = (Inr flags, w')
   \<and> flags 1 = Some False \<and> flags 2 = Some True
   \<and> fitted_on (fit_calls w') (Graph 0) 2 = [example_old_data]
   \<and> fitted_on (fit_calls w') (Graph 1) 2 = [example_new_data]
   \<and> fitted_on (fit_calls w') (Graph 0) 1 = [pd_concat example_old_data example_new_data]
   \<and> fitted_on (fit_calls w') (Graph 1) 1 = [pd_concat example_old_data example_new_data]
   \<and> rows (pd_concat example_old_data example_new_data)
     = rows example_old_data @ rows example_new_data"
proof -
  have returns: "case fst (fit_accounting_for_mechanism_change example_multipletests
       example_choice example_column_test example_conditional_column_test
       example_fit_target (Graph 0) (Graph 1) example_old_data example_new_data (1 / 2) None
       example_world) of
     Inl e \<Rightarrow> False
   | Inr flags \<Rightarrow> flags 1 = Some False \<and> flags 2 = Some True"
    by code_simp
  then obtain flags w' where run: "fit_accounting_for_mechanism_change example_multipletests
       example_choice example_column_test example_conditional_column_test
       example_fit_target (Graph 0) (Graph 1) example_old_data example_new_data (1 / 2) None
       example_world = (Inr flags, w')"
    and flags: "flags 1 = Some False" "flags 2 = Some True"
    by (cases "fit_accounting_for_mechanism_change example_multipletests
       example_choice example_column_test example_conditional_column_test
       example_fit_target (Graph 0) (Graph 1) example_old_data example_new_data (1 / 2) None
       example_world") (auto split: sum.splits)
  have graph: "distinct (nodes (graph_of example_world (Graph 1)))"
    "1 \<in> set (nodes (graph_of example_world (Graph 1)))"
    "2 \<in> set (nodes (graph_of example_world (Graph 1)))"
    by (simp_all add: example_world_def example_graph_def)
  have no_calls: "fit_calls example_world = []"
    by (simp add: example_world_def)
  have models: "(Graph 0 :: nat gref) \<noteq> Graph 1" by simp
  from refit_on_own_or_pooled_data [OF run] flags models run graph show ?thesis
    by (auto simp: no_calls)
qed

subsection \<open>The marginal-change Shapley attributor\<close>

lemma untouched_refl: "untouched fitted w w"
  by (simp add: untouched_def)

lemma leaves_trivial: "leaves (\<lambda>x. ()) collaborator"
  by (simp add: leaves_def)

lemma factory_leaves_trivial: "factory_leaves (\<lambda>x. ()) graph_factory"
  by (simp add: factory_leaves_def)

lemma steps_leave_trivial: "steps_leave (\<lambda>x. ()) strategy"
  by (induction strategy) auto

lemma on_ext_result: "on_ext m w = (r, w') \<Longrightarrow> m (ext w) = (r, ext w')"
  by (auto simp: on_ext_def split: prod.splits)

lemma keeps_same_world:
  assumes "\<And>w. snd (m w) = w"
  shows "keeps fitted w0 m"
  unfolding keeps_def
proof (intro allI impI)
  fix w r w'
  assume "untouched fitted w0 w" "m w = (r, w')"
  with assms [of w] show "untouched fitted w0 w'" by simp
qed

lemma keeps_unit_eff: "keeps fitted w0 (unit_eff x)"
  by (rule keeps_same_world) (simp add: unit_eff_def)

lemma keeps_raise: "keeps fitted w0 (raise e)"
  by (rule keeps_same_world) (simp add: raise_def)

lemma keeps_lift_result: "keeps fitted w0 (\<lambda>w. lift_result (f w) w)"
  by (rule keeps_same_world) (simp add: lift_result_def)

lemma keeps_on_ext:
  assumes "\<And>w. leaves fitted (f w)"
  shows "keeps fitted w0 (\<lambda>w. on_ext (f w) w)"
  unfolding keeps_def
proof (intro allI impI)
  fix w r w'
  assume u: "untouched fitted w0 w" and run: "on_ext (f w) w = (r, w')"
  from on_ext_result [OF run] assms [of w] have "fitted (ext w') = fitted (ext w)"
    unfolding leaves_def by blast
  with on_ext_frame [OF run] u show "untouched fitted w0 w'" by (simp add: untouched_def)
qed

lemma keeps_lift_result_const: "keeps fitted w0 (lift_result r)"
  by (rule keeps_same_world) (simp add: lift_result_def)

lemma keeps_on_ext_const:
  assumes "leaves fitted c"
  shows "keeps fitted w0 (on_ext c)"
  using keeps_on_ext [of fitted "\<lambda>_. c" w0] assms by simp

lemma keeps_bind_post:
  assumes "\<And>w r w'. untouched fitted w0 w \<Longrightarrow> m w = (r, w') \<Longrightarrow>
             untouched fitted w0 w' \<and> (\<forall>a. r = Inr a \<longrightarrow> P a)"
    and "\<And>a. P a \<Longrightarrow> keeps fitted w0 (f a)"
  shows "keeps fitted w0 (bind_eff m f)"
  unfolding keeps_def
proof (intro allI impI)
  fix w r w'
  assume u: "untouched fitted w0 w" and run: "bind_eff m f w = (r, w')"
  obtain r1 w1 where m: "m w = (r1, w1)" by (cases "m w")
  from assms(1) [OF u m] have u1: "untouched fitted w0 w1"
    and post: "\<forall>a. r1 = Inr a \<longrightarrow> P a"
    by auto
  show "untouched fitted w0 w'"
  proof (cases r1)
    case (Inl e)
    with run m u1 show ?thesis by (simp add: bind_eff_def)
  next
    case (Inr a)
    with run m have "f a w1 = (r, w')" by (simp add: bind_eff_def)
    moreover from post Inr have "keeps fitted w0 (f a)" by (auto intro: assms(2))
    ultimately show ?thesis using u1 unfolding keeps_def by blast
  qed
qed

lemma keeps_bind:
  assumes "keeps fitted w0 m" "\<And>a. keeps fitted w0 (f a)"
  shows "keeps fitted w0 (bind_eff m f)"
proof (rule keeps_bind_post [where P = "\<lambda>_. True"])
  fix w r w'
  assume "untouched fitted w0 w" "m w = (r, w')"
  with assms(1) show "untouched fitted w0 w' \<and> (\<forall>a. r = Inr a \<longrightarrow> True)"
    unfolding keeps_def by blast
next
  fix a show "keeps fitted w0 (f a)" by (rule assms(2))
qed

lemma keeps_set_causal_mechanism:
  "used w0 \<le> a \<Longrightarrow> keeps fitted w0 (set_causal_mechanism a node mechanism)"
  unfolding keeps_def by (auto simp: untouched_def set_causal_mechanism_def)

lemma keeps_assign_mechanisms:
  "used w0 \<le> a \<Longrightarrow>
   keeps fitted w0
     (assign_mechanisms a sorted_nodes coalition old_causal_models new_causal_models todo)"
proof (induction todo)
  case Nil
  show ?case by (simp add: keeps_unit_eff)
next
  case (Cons i todo)
  then show ?case
    by (auto simp: keeps_raise intro!: keeps_bind keeps_set_causal_mechanism)
qed

lemma keeps_write_parents: "used w0 \<le> a \<Longrightarrow> keeps fitted w0 (write_parents a ns)"
proof (induction ns)
  case Nil
  show ?case by (simp add: keeps_unit_eff)
next
  case (Cons node rest)
  have "keeps fitted w0 (\<lambda>w. (Inr (),
              w\<lparr>heap := (heap w)
                   (a := (heap w a)\<lparr>parents_during_fit :=
                                     (parents_during_fit (heap w a))
                                       (node \<mapsto> get_ordered_predecessors (heap w a) node)\<rparr>)\<rparr>))"
    using Cons.prems unfolding keeps_def by (auto simp: untouched_def)
  with Cons show ?case by (auto intro!: keeps_bind)
qed

lemma graph_factory_post:
  assumes "copies_graph graph_factory" "factory_leaves fitted graph_factory"
    "untouched fitted w0 w" "graph_factory g w = (r, w')"
  shows "untouched fitted w0 w' \<and> (\<forall>a. r = Inr a \<longrightarrow> used w0 \<le> a)"
proof -
  from assms(1,4) have c: "used w \<le> used w'" "\<forall>a < used w. heap w' a = heap w a"
    "\<forall>a. r = Inr a \<longrightarrow> used w \<le> a"
    unfolding copies_graph_def by blast+
  from assms(2,4) have "fitted (ext w') = fitted (ext w)"
    unfolding factory_leaves_def by blast
  with c assms(3) show ?thesis by (auto simp: untouched_def)
qed

lemma keeps_write_parents_of_nodes:
  "used w0 \<le> a \<Longrightarrow> keeps fitted w0 (\<lambda>w. write_parents a (f w) w)"
  using keeps_write_parents [of w0 a fitted] unfolding keeps_def by blast

lemma keeps_sorted_nodes: "keeps fitted w0 (\<lambda>w. (Inr (sort (nodes (heap w a))), w))"
  by (rule keeps_same_world) simp

lemma keeps_attribution_set_function:
  assumes "copies_graph graph_factory" "factory_leaves fitted graph_factory"
    and sampling: "\<And>g n. leaves fitted (draw_samples g n)"
    and difference: "\<And>a b. leaves fitted (difference_estimation_func a b)"
  shows "keeps fitted w0 (attribution_set_function graph_factory draw_samples
           difference_estimation_func causal_model_old old_causal_models new_causal_models
           target_samples_old target_node num_samples coalition)"
proof (cases "list_all (\<lambda>b. b = 0) coalition")
  case True
  then show ?thesis by (simp add: attribution_set_function_def keeps_unit_eff)
next
  case False
  have "keeps fitted w0
     (bind_eff (graph_factory causal_model_old) (\<lambda>causal_model.
        bind_eff (\<lambda>w. (Inr (sort (nodes (heap w causal_model))), w)) (\<lambda>sorted_nodes.
        bind_eff (assign_mechanisms causal_model sorted_nodes coalition old_causal_models
                    new_causal_models [0..<length old_causal_models]) (\<lambda>_.
        bind_eff (\<lambda>w. write_parents causal_model (nodes (heap w causal_model)) w) (\<lambda>_.
        bind_eff (\<lambda>w. on_ext (draw_samples (heap w causal_model) num_samples) w) (\<lambda>samples.
        bind_eff (lift_result (column samples target_node)) (\<lambda>target_samples_new.
          on_ext (difference_estimation_func target_samples_old target_samples_new))))))))"
  proof (rule keeps_bind_post [where P = "\<lambda>a. used w0 \<le> a"])
    fix w r w'
    assume "untouched fitted w0 w" "graph_factory causal_model_old w = (r, w')"
    with assms(1,2) show "untouched fitted w0 w' \<and> (\<forall>a. r = Inr a \<longrightarrow> used w0 \<le> a)"
      by (rule graph_factory_post)
  next
    fix a assume a: "used w0 \<le> a"
    show "keeps fitted w0
       (bind_eff (\<lambda>w. (Inr (sort (nodes (heap w a))), w)) (\<lambda>sorted_nodes.
        bind_eff (assign_mechanisms a sorted_nodes coalition old_causal_models
                    new_causal_models [0..<length old_causal_models]) (\<lambda>_.
        bind_eff (\<lambda>w. write_parents a (nodes (heap w a)) w) (\<lambda>_.
        bind_eff (\<lambda>w. on_ext (draw_samples (heap w a) num_samples) w) (\<lambda>samples.
        bind_eff (lift_result (column samples target_node)) (\<lambda>target_samples_new.
          on_ext (difference_estimation_func target_samples_old target_samples_new)))))))"
      apply (rule keeps_bind, rule keeps_sorted_nodes)
      apply (rule keeps_bind, rule keeps_assign_mechanisms [OF a])
      apply (rule keeps_bind, rule keeps_write_parents_of_nodes [OF a])
      apply (rule keeps_bind, rule keeps_on_ext, rule sampling)
      apply (rule keeps_bind, rule keeps_lift_result_const)
      apply (rule keeps_on_ext_const, rule difference)
      done
  qed
  with False show ?thesis by (simp add: attribution_set_function_def)
qed

lemma keeps_run_shapley:
  "steps_leave fitted strategy \<Longrightarrow> (\<And>c. keeps fitted w0 (set_function c)) \<Longrightarrow>
   keeps fitted w0 (run_shapley strategy set_function)"
proof (induction strategy)
  case (Done x)
  show ?case by (rule keeps_same_world) simp
next
  case (Fail x)
  show ?case by (rule keeps_same_world) simp
next
  case (Ask c resume)
  show ?case
    unfolding keeps_def
  proof (intro allI impI)
    fix w r w'
    assume u: "untouched fitted w0 w"
      and run: "run_shapley (Ask c resume) set_function w = (r, w')"
    obtain r1 w1 where f: "set_function c w = (r1, w1)" by (cases "set_function c w")
    with Ask.prems(2) u have u1: "untouched fitted w0 w1" unfolding keeps_def by blast
    show "untouched fitted w0 w'"
    proof (cases r1)
      case (Inl e)
      with run f u1 show ?thesis by simp
    next
      case (Inr v)
      with run f have "run_shapley (resume v) set_function w1 = (r, w')" by simp
      moreover from Ask.prems(1) have "steps_leave fitted (resume v)" by simp
      then have "keeps fitted w0 (run_shapley (resume v) set_function)"
        by (rule Ask.IH [OF rangeI]) (rule Ask.prems(2))
      ultimately show ?thesis using u1 unfolding keeps_def by blast
    qed
  qed
next
  case (Step advance resume)
  show ?case
    unfolding keeps_def
  proof (intro allI impI)
    fix w r w'
    assume u: "untouched fitted w0 w"
      and run: "run_shapley (Step advance resume) set_function w = (r, w')"
    from Step.prems(1) have "steps_leave fitted (resume (ext w))" by simp
    then have "keeps fitted w0 (run_shapley (resume (ext w)) set_function)"
      by (rule Step.IH [OF rangeI]) (rule Step.prems(2))
    moreover from Step.prems(1) have "fitted (advance (ext w)) = fitted (ext w)" by simp
    with u have "untouched fitted w0 (w\<lparr>ext := advance (ext w)\<rparr>)"
      by (simp add: untouched_def)
    ultimately show "untouched fitted w0 w'" using run unfolding keeps_def by auto
  qed
qed

lemma keeps_estimate_marginal_distribution_change:
  assumes "copies_graph graph_factory" "factory_leaves fitted graph_factory"
    and sampling: "\<And>g n. leaves fitted (draw_samples g n)"
    and difference: "\<And>a b. leaves fitted (difference_estimation_func a b)"
    and estimator: "\<And>k. steps_leave fitted (estimate_shapley_values k shapley_config)"
  shows "keeps fitted w0 (estimate_marginal_distribution_change graph_factory draw_samples
           estimate_shapley_values causal_model_old causal_model_new target_node num_samples
           difference_estimation_func shapley_config)"
  unfolding estimate_marginal_distribution_change_def
  apply (rule keeps_bind, rule keeps_lift_result)
  apply (rule keeps_bind, rule keeps_lift_result)
  apply (rule keeps_bind, rule keeps_on_ext, rule sampling)
  apply (rule keeps_bind, rule keeps_lift_result_const)
  apply (rule keeps_bind, rule keeps_run_shapley, rule estimator)
   apply (rule keeps_attribution_set_function)
      apply (rule assms(1), rule assms(2), rule sampling, rule difference)
  apply (rule keeps_lift_result)
  done

lemma keeps_distribution_change_of_graphs:
  assumes "copies_graph graph_factory" "factory_leaves fitted graph_factory"
    and sampling: "\<And>g n. leaves fitted (draw_samples g n)"
    and difference: "\<And>a b. leaves fitted (difference_estimation_func a b)"
    and estimator: "\<And>k. steps_leave fitted (estimate_shapley_values k shapley_config)"
  shows "keeps fitted w0 (distribution_change_of_graphs validate_causal_dag connected_nodes
           draw_samples estimate_shapley_values causal_model_old causal_model_new target_node
           num_samples difference_estimation_func shapley_config graph_factory)"
proof -
  have "keeps fitted w0 (estimate_marginal_distribution_change graph_factory draw_samples
           estimate_shapley_values x y target_node num_samples
           difference_estimation_func shapley_config)" for x y
    by (rule keeps_estimate_marginal_distribution_change)
       (rule assms(1) assms(2) sampling difference estimator)+
  then have inner: "keeps fitted w0
      (\<lambda>w. estimate_marginal_distribution_change graph_factory draw_samples
               estimate_shapley_values
               (node_connected_subgraph_view connected_nodes w causal_model_old target_node)
               (node_connected_subgraph_view connected_nodes w causal_model_new target_node)
               target_node num_samples difference_estimation_func shapley_config w)"
    unfolding keeps_def by blast
  show ?thesis
    unfolding distribution_change_of_graphs_def
    apply (rule keeps_bind, rule keeps_lift_result)
    apply (rule keeps_bind, rule keeps_lift_result)
    apply (rule inner)
    done
qed

lemma graph_of_untouched:
  "untouched fitted w w' \<Longrightarrow> address g < used w \<Longrightarrow> graph_of w' g = graph_of w g"
  by (cases g) (auto simp: untouched_def)

text \<open>
  Claim C8, as the code has it. The graph that a coalition evaluation rewrites is the
  one \<open>graph_factory\<close> returns, so the claim holds under the contract of the factory
  and not without it: a factory that hands back the graph it was given makes the call
  rewrite the old model that was passed in. Let \<open>graph_factory\<close> make a new graph
  object on every call and leave the existing ones alone. Then, whatever
  \<^verbatim>\<open>distribution_change_of_graphs\<close> returns or raises, every graph object that existed
  before the call is the same after it; in particular the graphs of the two causal
  models passed in have the nodes, the edges and the node attributes (mechanisms and
  fit-time parents) they had. The mechanism assignments and the writes of the parent
  metadata of the coalition evaluations therefore went to graph objects made during the
  call. The fitted state of the mechanisms is the same too, provided the collaborators
  the call hands it to (the factory, the sampling, the difference function and the
  steps of the Shapley estimator) leave it alone: the call itself does not fit.
\<close>

theorem passed_in_models_unmodified:
  assumes "copies_graph graph_factory"
    and "distribution_change_of_graphs validate_causal_dag connected_nodes draw_samples
           estimate_shapley_values causal_model_old causal_model_new target_node num_samples
           difference_estimation_func shapley_config graph_factory w = (r, w')"
  shows "used w \<le> used w'
    \<and> (\<forall>a < used w. heap w' a = heap w a)
    \<and> (address causal_model_old < used w \<longrightarrow>
         graph_of w' causal_model_old = graph_of w causal_model_old)
    \<and> (address causal_model_new < used w \<longrightarrow>
         graph_of w' causal_model_new = graph_of w causal_model_new)
    \<and> (factory_leaves fitted graph_factory
       \<and> (\<forall>g n. leaves fitted (draw_samples g n))
       \<and> (\<forall>a b. leaves fitted (difference_estimation_func a b))
       \<and> (\<forall>k. steps_leave fitted (estimate_shapley_values k shapley_config))
       \<longrightarrow> fitted (ext w') = fitted (ext w))"
proof -
  have "keeps (\<lambda>x. ()) w (distribution_change_of_graphs validate_causal_dag connected_nodes
           draw_samples estimate_shapley_values causal_model_old causal_model_new target_node
           num_samples difference_estimation_func shapley_config graph_factory)"
    by (rule keeps_distribution_change_of_graphs)
       (rule assms(1) factory_leaves_trivial leaves_trivial steps_leave_trivial)+
  with assms(2) untouched_refl [of "\<lambda>x. ()" w] have u: "untouched (\<lambda>x. ()) w w'"
    unfolding keeps_def by blast
  have graphs: "used w \<le> used w'
    \<and> (\<forall>a < used w. heap w' a = heap w a)
    \<and> (address causal_model_old < used w \<longrightarrow>
         graph_of w' causal_model_old = graph_of w causal_model_old)
    \<and> (address causal_model_new < used w \<longrightarrow>
         graph_of w' causal_model_new = graph_of w causal_model_new)"
    using u graph_of_untouched [OF u] by (auto simp: untouched_def)
  have state: "fitted (ext w') = fitted (ext w)"
    if "factory_leaves fitted graph_factory"
      and "\<forall>g n. leaves fitted (draw_samples g n)"
      and "\<forall>a b. leaves fitted (difference_estimation_func a b)"
      and "\<forall>k. steps_leave fitted (estimate_shapley_values k shapley_config)"
  proof -
    have "keeps fitted w (distribution_change_of_graphs validate_causal_dag connected_nodes
           draw_samples estimate_shapley_values causal_model_old causal_model_new target_node
           num_samples difference_estimation_func shapley_config graph_factory)"
      using assms(1) that by (intro keeps_distribution_change_of_graphs) auto
    with assms(2) untouched_refl [of fitted w] have "untouched fitted w w'"
      unfolding keeps_def by blast
    then show ?thesis by (simp add: untouched_def)
  qed
  from graphs state show ?thesis by blast
qed

theorem passed_in_models_unmodified_witness:
  "copies_graph (nx_DiGraph :: nat gref \<Rightarrow> (nat, (nat, real, real, nat \<times> real list) world) eff)
   \<and> (let w' = snd (distribution_change_of_graphs example_validate_causal_dag all_nodes
                      example_fitted_sampler example_fitted_shapley (Graph 0) (Graph 1) 2 3
                      example_fitted_difference () nx_DiGraph example_fitted_models)
      in used example_fitted_models \<le> used w'
       \<and> (\<forall>a < used example_fitted_models. heap w' a = heap example_fitted_models a)
       \<and> graph_of w' (Graph 0) = graph_of example_fitted_models (Graph 0)
       \<and> graph_of w' (Graph 1) = graph_of example_fitted_models (Graph 1)
       \<and> snd (ext w') = snd (ext example_fitted_models)
       \<and> fst (ext w') \<noteq> fst (ext example_fitted_models)
       \<and> used w' = 3
       \<and> causal_mechanism (heap w' 2) 2 = Some 5
       \<and> causal_mechanism (heap w' 0) 2 = Some 0)"
proof -
  let ?run = "distribution_change_of_graphs example_validate_causal_dag all_nodes
                example_fitted_sampler example_fitted_shapley (Graph 0) (Graph 1) 2 3
                example_fitted_difference () nx_DiGraph example_fitted_models"
  have factory: "copies_graph
      (nx_DiGraph :: nat gref \<Rightarrow> (nat, (nat, real, real, nat \<times> real list) world) eff)"
    unfolding copies_graph_def nx_DiGraph_def by auto
  have run: "?run = (fst ?run, snd ?run)" by simp
  have allocated: "address (Graph 0 :: nat gref) < used example_fitted_models"
    "address (Graph 1 :: nat gref) < used example_fitted_models"
    by (simp_all add: example_fitted_models_def example_models_def)
  have collaborators:
    "factory_leaves snd
       (nx_DiGraph :: nat gref \<Rightarrow> (nat, (nat, real, real, nat \<times> real list) world) eff)"
    "\<forall>g n. leaves snd (example_fitted_sampler g n)"
    "\<forall>a b. leaves snd (example_fitted_difference a b)"
    "\<forall>k. steps_leave snd (example_fitted_shapley k ())"
    by (auto simp: factory_leaves_def nx_DiGraph_def leaves_def example_fitted_sampler_def
          example_fitted_difference_def with_parameters_def example_fitted_shapley_def
          split: prod.splits)
  have copies: "used (snd ?run) = 3"
    "causal_mechanism (heap (snd ?run) 2) 2 = Some 5"
    "causal_mechanism (heap (snd ?run) 0) 2 = Some 0"
    "fst (ext (snd ?run)) \<noteq> fst (ext example_fitted_models)"
    by code_simp+
  from passed_in_models_unmodified [OF factory run, where fitted = snd]
    allocated copies factory collaborators
  show ?thesis by (simp add: Let_def)
qed

text \<open>
  With \<open>same_graph\<close> as factory, which hands back its argument, the call returns, the
  old model has the nodes and edges it had, and node \<open>2\<close> of the old model has the
  mechanism \<open>5\<close> of the new model in place of its own \<open>0\<close>, and parent metadata it did
  not have.
\<close>

theorem factory_returning_its_argument_counterexample:
  "(let run = distribution_change_of_graphs example_validate_causal_dag all_nodes
                example_sampler example_shapley (Graph 0) (Graph 1) 2 3
                example_cell_difference () same_graph example_models;
        w' = snd run
    in (case fst run of Inl e \<Rightarrow> False | Inr attributions \<Rightarrow> True)
     \<and> nodes (graph_of w' (Graph 0)) = nodes (graph_of example_models (Graph 0))
     \<and> edges (graph_of w' (Graph 0)) = edges (graph_of example_models (Graph 0))
     \<and> causal_mechanism (graph_of example_models (Graph 0)) 2 = Some 0
     \<and> causal_mechanism (graph_of w' (Graph 0)) 2 = Some 5
     \<and> parents_during_fit (graph_of example_models (Graph 0)) 2 = None
     \<and> parents_during_fit (graph_of w' (Graph 0)) 2 = Some [1])"
  unfolding Let_def by (intro conjI; code_simp)

lemma on_ext_Inr:
  "on_ext m w = (Inr v, w') \<Longrightarrow>
   m (ext w) = (Inr v, ext w') \<and> heap w' = heap w \<and> used w' = used w"
  by (auto simp: on_ext_def split: prod.splits)

lemma get_ordered_predecessors_edges:
  "edges g = edges g' \<Longrightarrow> get_ordered_predecessors g node = get_ordered_predecessors g' node"
  by (simp add: get_ordered_predecessors_def predecessors_def)

lemma set_causal_mechanism_result:
  "set_causal_mechanism a node mechanism w = (r, w') \<Longrightarrow>
   r = Inr ()
   \<and> causal_mechanism (heap w' a) = (causal_mechanism (heap w a))(node \<mapsto> mechanism)
   \<and> nodes (heap w' a) = nodes (heap w a) \<and> edges (heap w' a) = edges (heap w a)
   \<and> parents_during_fit (heap w' a) = parents_during_fit (heap w a)
   \<and> ext w' = ext w \<and> used w' = used w"
  by (auto simp: set_causal_mechanism_def)

lemma assign_mechanisms_frame:
  "assign_mechanisms a ns coalition olds news todo w = (Inr u, w') \<Longrightarrow>
   nodes (heap w' a) = nodes (heap w a) \<and> edges (heap w' a) = edges (heap w a)
   \<and> parents_during_fit (heap w' a) = parents_during_fit (heap w a)
   \<and> ext w' = ext w \<and> used w' = used w"
proof (induction todo arbitrary: w)
  case Nil
  then show ?case by (simp add: unit_eff_def)
next
  case (Cons i todo)
  from Cons.prems obtain w1 where
    first: "set_causal_mechanism a (ns ! i)
              (if coalition ! i = 1 then news ! i else olds ! i) w = (Inr (), w1)"
    and rest: "assign_mechanisms a ns coalition olds news todo w1 = (Inr u, w')"
    by (auto simp: raise_def split: if_splits dest!: bind_eff_Inr)
  from set_causal_mechanism_result [OF first] Cons.IH [OF rest] show ?case by simp
qed

lemma assign_mechanisms_result:
  assumes "assign_mechanisms a ns coalition olds news todo w = (Inr u, w')"
    and "distinct ns" "distinct todo"
  shows "(\<forall>i \<in> set todo. i < length ns
            \<and> causal_mechanism (heap w' a) (ns ! i)
                = Some (if coalition ! i = 1 then news ! i else olds ! i))
    \<and> (\<forall>node. node \<notin> (\<lambda>i. ns ! i) ` set todo \<longrightarrow>
          causal_mechanism (heap w' a) node = causal_mechanism (heap w a) node)
    \<and> nodes (heap w' a) = nodes (heap w a) \<and> edges (heap w' a) = edges (heap w a)
    \<and> parents_during_fit (heap w' a) = parents_during_fit (heap w a)
    \<and> ext w' = ext w \<and> used w' = used w"
  using assms
proof (induction todo arbitrary: w)
  case Nil
  then show ?case by (simp add: unit_eff_def)
next
  case (Cons i todo)
  let ?pick = "if coalition ! i = 1 then news ! i else olds ! i"
  from Cons.prems(1) have i: "i < length ns"
    by (auto simp: raise_def split: if_splits)
  from Cons.prems(1) obtain w1 where
    first: "set_causal_mechanism a (ns ! i) ?pick w = (Inr (), w1)"
    and rest: "assign_mechanisms a ns coalition olds news todo w1 = (Inr u, w')"
    by (auto simp: raise_def split: if_splits dest!: bind_eff_Inr)
  note s = set_causal_mechanism_result [OF first]
  from Cons.prems have d: "distinct todo" "i \<notin> set todo" by auto
  note IH = Cons.IH [OF rest Cons.prems(2) d(1)]
  have other: "ns ! i \<notin> (\<lambda>j. ns ! j) ` set todo"
  proof
    assume "ns ! i \<in> (\<lambda>j. ns ! j) ` set todo"
    then obtain j where j: "j \<in> set todo" "ns ! i = ns ! j" by auto
    with IH have "j < length ns" by auto
    with j i Cons.prems(2) have "i = j" by (simp add: nth_eq_iff_index_eq)
    with j d show False by simp
  qed
  with IH s have here: "causal_mechanism (heap w' a) (ns ! i) = Some ?pick" by simp
  have frame: "causal_mechanism (heap w' a) node = causal_mechanism (heap w a) node"
    if "node \<notin> (\<lambda>j. ns ! j) ` set (i # todo)" for node
    using that IH s by auto
  from i here frame IH s show ?case by auto
qed

lemma write_parents_result:
  "write_parents a ns w = (Inr u, w') \<Longrightarrow>
   (\<forall>node \<in> set ns.
      parents_during_fit (heap w' a) node = Some (get_ordered_predecessors (heap w a) node))
   \<and> (\<forall>node. node \<notin> set ns \<longrightarrow>
         parents_during_fit (heap w' a) node = parents_during_fit (heap w a) node)
   \<and> causal_mechanism (heap w' a) = causal_mechanism (heap w a)
   \<and> nodes (heap w' a) = nodes (heap w a) \<and> edges (heap w' a) = edges (heap w a)
   \<and> ext w' = ext w \<and> used w' = used w"
proof (induction ns arbitrary: w)
  case Nil
  then show ?case by (simp add: unit_eff_def)
next
  case (Cons n ns)
  let ?w1 = "w\<lparr>heap := (heap w)
                   (a := (heap w a)\<lparr>parents_during_fit :=
                                     (parents_during_fit (heap w a))
                                       (n \<mapsto> get_ordered_predecessors (heap w a) n)\<rparr>)\<rparr>"
  from Cons.prems have rest: "write_parents a ns ?w1 = (Inr u, w')"
    by (simp add: bind_eff_def)
  note IH = Cons.IH [OF rest]
  have e: "get_ordered_predecessors (g\<lparr>parents_during_fit := x\<rparr>) node
      = get_ordered_predecessors g node" for g :: "('a, 'b) digraph" and x node
    by (rule get_ordered_predecessors_edges) simp
  from IH show ?case
    by (auto simp: e)
qed


text \<open>
  Claim C1. On a coalition with all entries zero the set function returns exactly \<open>0\<close>
  and leaves the store and the collaborators' state as they were, whatever the graph
  factory, the sampler and the difference function are: no hybrid model was built and
  nothing was sampled. On any other coalition, a value it returns is the value of the
  difference function on the cached old target samples and the target column of samples
  drawn from a hybrid model: a graph made by the graph factory, in which (for distinct
  nodes) the \<open>i\<close>-th node in sorted order carries its new mechanism if entry \<open>i\<close> of the
  coalition is 1 and its old mechanism otherwise, and every node its ordered parents as
  fit-time parents.
\<close>

theorem all_zero_coalition_short_circuits:
  "(list_all (\<lambda>b. b = 0) coalition \<longrightarrow>
      attribution_set_function graph_factory draw_samples difference_estimation_func
        causal_model_old old_causal_models new_causal_models target_samples_old target_node
        num_samples coalition w = (Inr (Finite 0), w))
   \<and> (\<not> list_all (\<lambda>b. b = 0) coalition
       \<and> attribution_set_function graph_factory draw_samples difference_estimation_func
           causal_model_old old_causal_models new_causal_models target_samples_old
           target_node num_samples coalition w = (Inr v, w') \<longrightarrow>
      (\<exists>a wc g samples x x' target_samples_new.
         graph_factory causal_model_old w = (Inr a, wc)
       \<and> g = heap w' a
       \<and> nodes g = nodes (heap wc a) \<and> edges g = edges (heap wc a)
       \<and> (distinct (nodes g) \<longrightarrow>
            (\<forall>i < length old_causal_models.
               causal_mechanism g (sort (nodes g) ! i)
                 = Some (if coalition ! i = 1 then new_causal_models ! i
                         else old_causal_models ! i)))
       \<and> (\<forall>node \<in> set (nodes g).
            parents_during_fit g node = Some (get_ordered_predecessors g node))
       \<and> draw_samples g num_samples x = (Inr samples, x')
       \<and> column samples target_node = Inr target_samples_new
       \<and> difference_estimation_func target_samples_old target_samples_new x'
           = (Inr v, ext w')))"
proof (intro conjI impI)
  assume "list_all (\<lambda>b. b = 0) coalition"
  then show "attribution_set_function graph_factory draw_samples difference_estimation_func
        causal_model_old old_causal_models new_causal_models target_samples_old target_node
        num_samples coalition w = (Inr (Finite 0), w)"
    by (simp add: attribution_set_function_def unit_eff_def)
next
  assume a: "\<not> list_all (\<lambda>b. b = 0) coalition
       \<and> attribution_set_function graph_factory draw_samples difference_estimation_func
           causal_model_old old_causal_models new_causal_models target_samples_old
           target_node num_samples coalition w = (Inr v, w')"
  then have nonzero: "\<not> list_all (\<lambda>b. b = 0) coalition"
    and returned: "attribution_set_function graph_factory draw_samples
           difference_estimation_func causal_model_old old_causal_models new_causal_models
           target_samples_old target_node num_samples coalition w = (Inr v, w')"
    by blast+
  then have run: "bind_eff (graph_factory causal_model_old) (\<lambda>causal_model.
        bind_eff (\<lambda>w. (Inr (sort (nodes (heap w causal_model))), w)) (\<lambda>sorted_nodes.
        bind_eff (assign_mechanisms causal_model sorted_nodes coalition old_causal_models
                    new_causal_models [0..<length old_causal_models]) (\<lambda>_.
        bind_eff (\<lambda>w. write_parents causal_model (nodes (heap w causal_model)) w) (\<lambda>_.
        bind_eff (\<lambda>w. on_ext (draw_samples (heap w causal_model) num_samples) w) (\<lambda>samples.
        bind_eff (lift_result (column samples target_node)) (\<lambda>target_samples_new.
          on_ext (difference_estimation_func target_samples_old target_samples_new)))))))
        w = (Inr v, w')"
    by (simp add: attribution_set_function_def)
  from bind_eff_Inr [OF run] obtain a wc where
    made: "graph_factory causal_model_old w = (Inr a, wc)"
    and run1: "bind_eff (\<lambda>w. (Inr (sort (nodes (heap w a))), w)) (\<lambda>sorted_nodes.
        bind_eff (assign_mechanisms a sorted_nodes coalition old_causal_models
                    new_causal_models [0..<length old_causal_models]) (\<lambda>_.
        bind_eff (\<lambda>w. write_parents a (nodes (heap w a)) w) (\<lambda>_.
        bind_eff (\<lambda>w. on_ext (draw_samples (heap w a) num_samples) w) (\<lambda>samples.
        bind_eff (lift_result (column samples target_node)) (\<lambda>target_samples_new.
          on_ext (difference_estimation_func target_samples_old target_samples_new))))))
        wc = (Inr v, w')"
    by blast
  let ?ns = "sort (nodes (heap wc a))"
  from bind_eff_Inr [OF run1] have run2:
    "bind_eff (assign_mechanisms a ?ns coalition old_causal_models
                    new_causal_models [0..<length old_causal_models]) (\<lambda>_.
        bind_eff (\<lambda>w. write_parents a (nodes (heap w a)) w) (\<lambda>_.
        bind_eff (\<lambda>w. on_ext (draw_samples (heap w a) num_samples) w) (\<lambda>samples.
        bind_eff (lift_result (column samples target_node)) (\<lambda>target_samples_new.
          on_ext (difference_estimation_func target_samples_old target_samples_new)))))
        wc = (Inr v, w')"
    by auto
  from bind_eff_Inr [OF run2] obtain u1 w1 where
    assigned: "assign_mechanisms a ?ns coalition old_causal_models new_causal_models
                 [0..<length old_causal_models] wc = (Inr u1, w1)"
    and run3: "bind_eff (\<lambda>w. write_parents a (nodes (heap w a)) w) (\<lambda>_.
        bind_eff (\<lambda>w. on_ext (draw_samples (heap w a) num_samples) w) (\<lambda>samples.
        bind_eff (lift_result (column samples target_node)) (\<lambda>target_samples_new.
          on_ext (difference_estimation_func target_samples_old target_samples_new))))
        w1 = (Inr v, w')"
    by blast
  from bind_eff_Inr [OF run3] obtain u2 w2 where
    written: "write_parents a (nodes (heap w1 a)) w1 = (Inr u2, w2)"
    and run4: "bind_eff (\<lambda>w. on_ext (draw_samples (heap w a) num_samples) w) (\<lambda>samples.
        bind_eff (lift_result (column samples target_node)) (\<lambda>target_samples_new.
          on_ext (difference_estimation_func target_samples_old target_samples_new)))
        w2 = (Inr v, w')"
    by blast
  from bind_eff_Inr [OF run4] obtain samples w3 where
    drawn: "on_ext (draw_samples (heap w2 a) num_samples) w2 = (Inr samples, w3)"
    and run5: "bind_eff (lift_result (column samples target_node)) (\<lambda>target_samples_new.
          on_ext (difference_estimation_func target_samples_old target_samples_new))
        w3 = (Inr v, w')"
    by blast
  from bind_eff_Inr [OF run5] obtain target_samples_new where
    col: "column samples target_node = Inr target_samples_new"
    and diff: "on_ext (difference_estimation_func target_samples_old target_samples_new) w3
                 = (Inr v, w')"
    by (auto simp: lift_result_def)
  note d = on_ext_Inr [OF drawn]
  note f = on_ext_Inr [OF diff]
  let ?g = "heap w' a"
  have g: "?g = heap w2 a" using d f by simp
  note wr = write_parents_result [OF written]
  note fr = assign_mechanisms_frame [OF assigned]
  have shape: "nodes ?g = nodes (heap wc a)" "edges ?g = edges (heap wc a)"
    "nodes (heap w1 a) = nodes (heap wc a)" "edges (heap w1 a) = edges ?g"
    using g wr fr by simp_all
  have mechanisms: "causal_mechanism ?g (sort (nodes ?g) ! i)
                 = Some (if coalition ! i = 1 then new_causal_models ! i
                         else old_causal_models ! i)"
    if "distinct (nodes ?g)" "i < length old_causal_models" for i
  proof -
    from that(1) shape have "distinct ?ns" by simp
    from assign_mechanisms_result [OF assigned this] that(2)
    have "causal_mechanism (heap w1 a) (?ns ! i)
        = Some (if coalition ! i = 1 then new_causal_models ! i else old_causal_models ! i)"
      by simp
    with g wr shape show ?thesis by simp
  qed
  have parents: "parents_during_fit ?g node = Some (get_ordered_predecessors ?g node)"
    if "node \<in> set (nodes ?g)" for node
  proof -
    from that shape have "node \<in> set (nodes (heap w1 a))" by simp
    with wr g have "parents_during_fit ?g node
        = Some (get_ordered_predecessors (heap w1 a) node)"
      by simp
    with get_ordered_predecessors_edges [OF shape(4), of node] show ?thesis by simp
  qed
  from d g have draw: "draw_samples ?g num_samples (ext w2) = (Inr samples, ext w3)"
    by simp
  from f have difference: "difference_estimation_func target_samples_old target_samples_new
      (ext w3) = (Inr v, ext w')"
    by simp
  show "\<exists>a wc g samples x x' target_samples_new.
         graph_factory causal_model_old w = (Inr a, wc)
       \<and> g = heap w' a
       \<and> nodes g = nodes (heap wc a) \<and> edges g = edges (heap wc a)
       \<and> (distinct (nodes g) \<longrightarrow>
            (\<forall>i < length old_causal_models.
               causal_mechanism g (sort (nodes g) ! i)
                 = Some (if coalition ! i = 1 then new_causal_models ! i
                         else old_causal_models ! i)))
       \<and> (\<forall>node \<in> set (nodes g).
            parents_during_fit g node = Some (get_ordered_predecessors g node))
       \<and> draw_samples g num_samples x = (Inr samples, x')
       \<and> column samples target_node = Inr target_samples_new
       \<and> difference_estimation_func target_samples_old target_samples_new x'
           = (Inr v, ext w')"
    using made shape(1,2) mechanisms parents draw col difference by blast
qed

theorem all_zero_coalition_short_circuits_witness:
  "attribution_set_function nx_DiGraph example_sampler example_cell_difference (Graph 0)
       [0, 0] [3, 5] [Some 0, Some 0, Some 0] 2 3 [0, 0] example_models
     = (Inr (Finite 0), example_models)
   \<and> (\<exists>a wc g samples x x' target_samples_new.
         nx_DiGraph (Graph 0) example_models = (Inr a, wc)
       \<and> g = heap (snd (attribution_set_function nx_DiGraph example_sampler
                           example_cell_difference (Graph 0) [0, 0] [3, 5]
                           [Some 0, Some 0, Some 0] 2 3 [0, 1] example_models)) a
       \<and> nodes g = nodes (heap wc a) \<and> edges g = edges (heap wc a)
       \<and> (distinct (nodes g) \<longrightarrow>
            (\<forall>i < length [0, 0 :: real].
               causal_mechanism g (sort (nodes g) ! i)
                 = Some (if [0, 1 :: int] ! i = 1 then [3, 5] ! i else [0, 0] ! i)))
       \<and> (\<forall>node \<in> set (nodes g).
            parents_during_fit g node = Some (get_ordered_predecessors g node))
       \<and> example_sampler g 3 x = (Inr samples, x')
       \<and> column samples 2 = Inr target_samples_new
       \<and> example_cell_difference [Some 0, Some 0, Some 0] target_samples_new x'
           = (Inr (Finite 15), ext (snd (attribution_set_function nx_DiGraph example_sampler
                                  example_cell_difference (Graph 0) [0, 0] [3, 5]
                                  [Some 0, Some 0, Some 0] 2 3 [0, 1] example_models))))"
proof -
  let ?run = "attribution_set_function nx_DiGraph example_sampler example_cell_difference
                (Graph 0) [0, 0] [3, 5] [Some 0, Some 0, Some 0] 2 3 [0, 1] example_models"
  have zero: "list_all (\<lambda>b. b = 0) [0, 0 :: int]" by simp
  have nonzero: "\<not> list_all (\<lambda>b. b = 0) [0, 1 :: int]" by simp
  have "fst ?run = Inr (Finite 15)" by code_simp
  then have returned: "?run = (Inr (Finite 15), snd ?run)" by (simp add: prod_eq_iff)
  note short = all_zero_coalition_short_circuits [THEN conjunct1, THEN mp, OF zero]
  note sampled = all_zero_coalition_short_circuits [THEN conjunct2, THEN mp,
      OF conjI [OF nonzero returned]]
  from short sampled show ?thesis by blast
qed

end
